theory Spec2Isabelle
  imports Complex_Main "HOL-Library.Char_ord" "HOL-Library.List_Lexorder" "HOL-Library.Multiset"
begin

section \<open>Python strings\<close>

text \<open>
  Python \<open>str\<close> values are modelled as \<open>string\<close>, a \<open>char\<close> standing for the code point
  of the same number (0 to 255). White space is what \<open>str.strip\<close> and the regular
  expression class \<open>\s\<close> take for it in that range: 9 to 13, 28 to 32, 133 and 160. The
  decimal digits of \<open>\d\<close> are 0 to 9 there, and \<open>str.lower\<close> maps A to Z and the capitals
  192 to 222 (but 215, the multiplication sign) 32 code points up. Floats (confidences,
  thresholds) are modelled as \<open>real\<close>: the code only stores and compares them.
\<close>

definition is_space :: "char \<Rightarrow> bool" where
  "is_space c =
     (let n = (of_char c :: nat) in
      (9 \<le> n \<and> n \<le> 13) \<or> (28 \<le> n \<and> n \<le> 32) \<or> n = 133 \<or> n = 160)"

definition is_digit :: "char \<Rightarrow> bool" where
  "is_digit c = (let n = (of_char c :: nat) in 48 \<le> n \<and> n \<le> 57)"

definition is_alpha :: "char \<Rightarrow> bool" where
  "is_alpha c = (let n = (of_char c :: nat) in (65 \<le> n \<and> n \<le> 90) \<or> (97 \<le> n \<and> n \<le> 122))"

definition lower_char :: "char \<Rightarrow> char" where
  "lower_char c =
     (case map_of (zip ''ABCDEFGHIJKLMNOPQRSTUVWXYZ'' ''abcdefghijklmnopqrstuvwxyz'') c of
        None \<Rightarrow>
          (let n = (of_char c :: nat) in
           if (192 \<le> n \<and> n \<le> 214) \<or> (216 \<le> n \<and> n \<le> 222) then char_of (n + 32) else c)
      | Some l \<Rightarrow> l)"

text \<open>\<open>s.lower()\<close> and \<open>s.strip()\<close>.\<close>

definition lower :: "string \<Rightarrow> string" where
  "lower s = map lower_char s"

definition strip :: "string \<Rightarrow> string" where
  "strip s = rev (dropWhile is_space (rev (dropWhile is_space s)))"

text \<open>\<open>s.split(c)\<close> for a one-character separator: never empty, one more part than separators.\<close>

fun split_at :: "char \<Rightarrow> string \<Rightarrow> string list" where
  "split_at c [] = [[]]"
| "split_at c (x # xs) =
     (if x = c then [] # split_at c xs
      else (case split_at c xs of [] \<Rightarrow> [[x]] | p # ps \<Rightarrow> (x # p) # ps))"

text \<open>\<open>sub in s\<close> on strings.\<close>

fun starts_with :: "string \<Rightarrow> string \<Rightarrow> bool" where
  "starts_with [] s = True"
| "starts_with (a # as) [] = False"
| "starts_with (a # as) (c # cs) = (a = c \<and> starts_with as cs)"

fun contains :: "string \<Rightarrow> string \<Rightarrow> bool" where
  "contains sub [] = (sub = [])"
| "contains sub (c # cs) = (starts_with sub (c # cs) \<or> contains sub cs)"

text \<open>\<open>sep.join(xs)\<close>.\<close>

fun join :: "string \<Rightarrow> string list \<Rightarrow> string" where
  "join sep [] = []"
| "join sep [x] = x"
| "join sep (x # y # ys) = x @ sep @ join sep (y # ys)"

text \<open>Decimal rendering of integers, as an f-string does it.\<close>

definition digit_char :: "nat \<Rightarrow> char" where
  "digit_char d = ''0123456789'' ! d"

function show_nat :: "nat \<Rightarrow> string" where
  "show_nat n = (if n < 10 then [digit_char n] else show_nat (n div 10) @ [digit_char (n mod 10)])"
  by pat_completeness auto
termination
  by (relation "measure id") auto

declare show_nat.simps [simp del]

definition show_int :: "int \<Rightarrow> string" where
  "show_int i = (if i < 0 then CHR ''-'' # show_nat (nat (- i)) else show_nat (nat i))"

text \<open>Python slicing \<open>text[:s]\<close> and \<open>text[e:]\<close> for \<open>0 \<le> s\<close>, \<open>0 \<le> e\<close>.\<close>

definition slice_to :: "int \<Rightarrow> string \<Rightarrow> string" where
  "slice_to s text = take (nat s) text"

definition slice_from :: "int \<Rightarrow> string \<Rightarrow> string" where
  "slice_from e text = drop (nat e) text"

section \<open>The PII tool (src/tools/pii\_tool.py)\<close>

text \<open>
  \<open>mask_value\<close>: an email keeps two characters of the local part and the domain when the
  value splits in exactly two parts at \<open>@\<close>; a phone keeps its last four characters
  (\<open>value[-4:]\<close>, the whole value when it is shorter); anything else is one fixed token.
\<close>

definition mask_value :: "string \<Rightarrow> string \<Rightarrow> string" where
  "mask_value pii_type val =
     (if pii_type = ''email'' then
        (let parts = split_at CHR ''@'' val in
         if length parts = 2 then take 2 (parts ! 0) @ ''***@'' @ (parts ! 1) else ''***'')
      else if pii_type = ''phone'' then ''***'' @ drop (length val - 4) val
      else ''[REDACTED]'')"

text \<open>
  The two regular expressions of the detector, read with the semantics of Python's
  backtracking matcher (greedy quantifiers, leftmost match, \<open>finditer\<close> resuming at the end
  of the previous match). Each matcher takes the text from a start position on and
  returns the length of the match there.

  \<open>EMAIL_RE = [A-Za-z0-9._%+-]+@[A-Za-z0-9.-]+\.[A-Za-z]{2,}\<close>: the local part is the
  longest run of its class (a shorter one is not followed by \<open>@\<close>); the domain class takes
  its longest run and gives characters back until what follows is a dot and at least two
  letters, which are all inside that run.

  \<open>PHONE_RE = \+?\d[\d\-\.\s]{7,}\d\<close>: the middle class takes its longest run and gives
  characters back, down to seven, until a digit follows.
\<close>

definition is_email_local :: "char \<Rightarrow> bool" where
  "is_email_local c = (is_alpha c \<or> is_digit c \<or> c \<in> set ''._%+-'')"

definition is_email_domain :: "char \<Rightarrow> bool" where
  "is_email_domain c = (is_alpha c \<or> is_digit c \<or> c \<in> set ''.-'')"

definition is_phone_mid :: "char \<Rightarrow> bool" where
  "is_phone_mid c = (is_digit c \<or> c \<in> set ''-.'' \<or> is_space c)"

definition email_tail :: "string \<Rightarrow> nat option" where
  "email_tail run =
     (case filter (\<lambda>k. run ! k = CHR ''.'' \<and> 2 \<le> length (takeWhile is_alpha (drop (Suc k) run)))
             (rev [1..<length run]) of
        [] \<Rightarrow> None
      | k # _ \<Rightarrow> Some (k + 1 + length (takeWhile is_alpha (drop (Suc k) run))))"

definition email_match :: "string \<Rightarrow> nat option" where
  "email_match xs =
     (let loc = takeWhile is_email_local xs; rest = dropWhile is_email_local xs in
      if loc = [] then None
      else (case rest of
              [] \<Rightarrow> None
            | c # ys \<Rightarrow>
                if c \<noteq> CHR ''@'' then None
                else (case email_tail (takeWhile is_email_domain ys) of
                        None \<Rightarrow> None
                      | Some m \<Rightarrow> Some (length loc + 1 + m))))"

definition phone_tail :: "string \<Rightarrow> nat option" where
  "phone_tail run =
     (case filter (\<lambda>k. is_digit (run ! k)) (rev [7..<length run]) of
        [] \<Rightarrow> None
      | k # _ \<Rightarrow> Some (Suc k))"

definition phone_body :: "string \<Rightarrow> nat option" where
  "phone_body ys =
     (case ys of
        [] \<Rightarrow> None
      | d # zs \<Rightarrow>
          if \<not> is_digit d then None
          else (case phone_tail (takeWhile is_phone_mid zs) of
                  None \<Rightarrow> None
                | Some m \<Rightarrow> Some (1 + m)))"

definition phone_match :: "string \<Rightarrow> nat option" where
  "phone_match xs =
     (case xs of
        [] \<Rightarrow> None
      | c # cs \<Rightarrow>
          if c = CHR ''+'' then (case phone_body cs of None \<Rightarrow> None | Some m \<Rightarrow> Some (1 + m))
          else phone_body xs)"

text \<open>
  \<open>finditer\<close>: the scan walks the text; \<open>skip\<close> counts the characters still inside the
  previous match. The result is the list of \<open>(m.start(), m.end())\<close>.
\<close>

fun finditer :: "(string \<Rightarrow> nat option) \<Rightarrow> nat \<Rightarrow> nat \<Rightarrow> string \<Rightarrow> (nat \<times> nat) list" where
  "finditer m pos skip [] = []"
| "finditer m pos skip (c # cs) =
     (if 0 < skip then finditer m (Suc pos) (skip - 1) cs
      else (case m (c # cs) of
              None \<Rightarrow> finditer m (Suc pos) 0 cs
            | Some n \<Rightarrow> (pos, pos + n) # finditer m (Suc pos) (n - 1) cs))"

record raw_finding =
  r_pii_type :: string
  r_value :: string
  r_start :: int
  r_end :: int
  r_confidence :: real

definition ADDRESS_HINTS :: "string list" where
  "ADDRESS_HINTS = [''street'', ''ave'', ''road'', ''rd'', ''st '']"

definition match_finding :: "string \<Rightarrow> real \<Rightarrow> string \<Rightarrow> nat \<times> nat \<Rightarrow> raw_finding" where
  "match_finding ty conf text se =
     \<lparr> r_pii_type = ty, r_value = take (snd se - fst se) (drop (fst se) text),
       r_start = int (fst se), r_end = int (snd se), r_confidence = conf \<rparr>"

definition detect :: "string \<Rightarrow> raw_finding list" where
  "detect text =
     map (match_finding ''email'' 0.99 text) (finditer email_match 0 0 text) @
     map (match_finding ''phone'' 0.9 text) (finditer phone_match 0 0 text) @
     (if \<exists>h \<in> set ADDRESS_HINTS. contains h (lower text)
      then [\<lparr> r_pii_type = ''address'', r_value = ''<context>'', r_start = 0, r_end = 0,
              r_confidence = 0.6 \<rparr>]
      else [])"

section \<open>The run record (src/agent/plan.py)\<close>

record artifact =
  a_source :: string
  a_id :: string
  a_type :: string
  a_content :: string

record finding =
  f_artifact_id :: string
  f_pii_type :: string
  f_value :: string
  f_start :: int
  f_end :: int
  f_confidence :: real
  f_third_party :: bool

record proposal =
  p_id :: string
  p_artifact_id :: string
  p_pii_type :: string
  p_value :: string
  p_masked_preview :: string
  p_start :: int
  p_end :: int
  p_action :: string
  p_third_party :: bool

record approval =
  decision :: "string option"
  justification :: "string option"

record approvals_rec =
  compliance :: "approval option"
  legal_approval :: "approval option"
  selected_proposals :: "string list option"

text \<open>
  The policy mapping, with its nested sections flattened: \<open>identity\<close>
  (\<open>min_confidence_for_auto_approval\<close>, \<open>min_confidence\<close>), \<open>disclosure\<close>
  (\<open>require_sections\<close>), \<open>redaction\<close> (\<open>required_types\<close>,
  \<open>allow_override_with_justification\<close>), \<open>retention_policies\<close> and \<open>sla\<close>. A key the code reads
  with a default is an option; an absent list is the empty list.
\<close>

record policy_rec =
  min_confidence_for_auto_approval :: "real option"
  min_confidence :: "real option"
  require_sections :: "string list"
  required_types :: "string list"
  allow_override_with_justification :: bool
  financial_transaction_days :: "int option"
  active_service_days :: "int option"
  access_days :: "int option"

record upload_meta =
  filename :: "string option"
  size :: "int option"

record identity_rec =
  status :: "string option"
  confidence :: "real option"
  precomputed_confidence :: "real option"
  upload :: "upload_meta option"
  id_email :: "string option"
  id_phone :: "string option"

record legal_rec =
  hold :: "bool option"
  retain_financial_records :: "bool option"
  retain_active_service :: "bool option"
  allow_erasure :: "bool option"

record deleted_item =
  d_id :: string
  d_source :: string
  d_status :: string

datatype disclosure_content =
    Text string
  | Categories "string list" "string list"
  | Items "string list"

text \<open>What a step writes to the audit log and returns as its data.\<close>

datatype payload =
    NoData
  | IdentityData identity_rec
  | SourcesData "(string \<times> string) list"
  | ArtifactsData "artifact list"
  | FindingsData "finding list"
  | ProposalsData "proposal list"
  | PackageData nat nat "(string \<times> disclosure_content) list"
  | DeletedData "deleted_item list"
  | CountDetail nat
  | DetectDetail nat nat
  | MinimizationDetail nat nat
  | AssembleDetail nat nat "string list"
  | PendingDetail bool
  | DeliveredDetail bool string
  | LegalDetail bool "string list" bool
  | ConfirmDetail bool nat

record audit_entry =
  e_step :: string
  e_detail :: payload

record PlanStepResult =
  r_step :: string
  r_success :: bool
  r_data :: payload
  r_error :: "string option"

datatype clar_payload =
    IdentityPayload real real "string option" "int option"
  | CompliancePayload nat "string list" nat "proposal list" string string
  | LegalPayload string "string list" string string

record Clarification =
  c_type :: string
  c_payload :: clar_payload

record PlanRunState =
  request_id :: string
  subject_email :: string
  request_types :: "string list"
  artifacts :: "artifact list"
  pii_findings :: "finding list"
  redaction_proposals :: "proposal list"
  approvals :: approvals_rec
  policy :: policy_rec
  identity :: identity_rec
  legal :: legal_rec
  audit_log :: "audit_entry list"
  disclosures :: "(string \<times> disclosure_content) list"
  delivery :: "string option"
  erasure :: "deleted_item list option"

record GDPRPlan =
  state :: PlanRunState
  clarifications :: "Clarification list"

text \<open>
  \<open>GDPRPlan.log\<close>: one entry appended to the audit log. \<open>set_state\<close> below is the
  assignment to a field of \<open>self.state\<close>.
\<close>

definition log :: "string \<Rightarrow> payload \<Rightarrow> GDPRPlan \<Rightarrow> GDPRPlan" where
  "log step detail pl =
     pl\<lparr> state := (state pl)\<lparr> audit_log := audit_log (state pl) @ [\<lparr> e_step = step, e_detail = detail \<rparr>] \<rparr> \<rparr>"

section \<open>The guardrails (src/agent/hooks.py)\<close>

text \<open>A guard returns \<open>{"allow": True}\<close> or \<open>{"allow": False, "reason": ...}\<close>.\<close>

datatype guard_result = Allow | Deny string

definition pre_step_guard :: "PlanRunState \<Rightarrow> string \<Rightarrow> guard_result" where
  "pre_step_guard st step =
     (if step \<in> {''discover_sources'', ''collect_artifacts''} \<and> status (identity st) \<noteq> Some ''verified''
      then Deny ''Identity not verified''
      else Allow)"

text \<open>The key \<open>(artifact_id, start, end)\<close> of a finding and of a proposal.\<close>

definition finding_key :: "finding \<Rightarrow> string \<times> int \<times> int" where
  "finding_key f = (f_artifact_id f, f_start f, f_end f)"

definition proposal_key :: "proposal \<Rightarrow> string \<times> int \<times> int" where
  "proposal_key p = (p_artifact_id p, p_start p, p_end p)"

definition selected_ids_of :: "PlanRunState \<Rightarrow> string set" where
  "selected_ids_of st = set (case selected_proposals (approvals st) of None \<Rightarrow> [] | Some ids \<Rightarrow> ids)"

text \<open>\<open>justification\<close> of the compliance approval, \<open>""\<close> when there is none.\<close>

definition compliance_justification :: "PlanRunState \<Rightarrow> string" where
  "compliance_justification st =
     (case compliance (approvals st) of
        None \<Rightarrow> []
      | Some a \<Rightarrow> (case justification a of None \<Rightarrow> [] | Some j \<Rightarrow> j))"

definition pre_finalize_guard :: "PlanRunState \<Rightarrow> guard_result" where
  "pre_finalize_guard st =
     (if hold (legal st) = Some True then Deny ''Legal hold active''
      else
        let required = require_sections (policy st);
            missing = filter (\<lambda>s. s \<notin> fst ` set (disclosures st)) required
        in
        if missing \<noteq> [] then Deny (''Missing disclosures: '' @ join '', '' missing)
        else
          let req_types = set (required_types (policy st)) in
          if req_types \<noteq> {} then
            let required_findings = filter (\<lambda>f. f_pii_type f \<in> req_types) (pii_findings st) in
            if required_findings \<noteq> [] then
              let selected_ids = selected_ids_of st;
                  selected_by_key =
                    map proposal_key
                      (filter (\<lambda>p. p_id p \<in> selected_ids \<and> p_pii_type p \<in> req_types)
                         (redaction_proposals st));
                  missing_required =
                    length (filter (\<lambda>f. finding_key f \<notin> set selected_by_key) required_findings)
              in
              if 0 < missing_required then
                (if allow_override_with_justification (policy st) \<and> compliance_justification st \<noteq> []
                 then Allow
                 else Deny (''Missing required redactions: '' @ show_nat missing_required))
              else Allow
            else Allow
          else Allow)"

definition legal_decision :: "PlanRunState \<Rightarrow> string option" where
  "legal_decision st =
     (case legal_approval (approvals st) of None \<Rightarrow> None | Some a \<Rightarrow> decision a)"

definition pre_erasure_guard :: "PlanRunState \<Rightarrow> guard_result" where
  "pre_erasure_guard st =
     (if hold (legal st) = Some True then Deny ''Legal hold active''
      else if legal_decision st \<noteq> Some ''approved'' then Deny ''Legal approval missing''
      else if allow_erasure (legal st) = Some False then
        (if retain_financial_records (legal st) = Some True
         then Deny ''Data retained for financial regulations''
         else if retain_active_service (legal st) = Some True
         then Deny ''Data retained for active service contract''
         else Deny ''Legal basis not met'')
      else Allow)"

section \<open>The workflow steps (src/agent/plan.py)\<close>

text \<open>
  What the steps read from outside the run record: the JSON files under \<open>data/\<close> (\<open>None\<close>
  when \<open>read_json\<close> raises, which every caller catches), the files of \<open>data/files\<close> (with
  \<open>None\<close> for a file that cannot be read), the Gmail tool, the clock, the working
  directory, and whether \<open>os.makedirs\<close> and \<open>write_disclosure_zip\<close> return or raise. A transaction's date is given by what \<open>datetime.fromisoformat\<close> makes of it: not
  a string, a string it rejects, a date-time without offset, or one with an offset (as
  microseconds since the epoch).
\<close>

record crm_profile =
  crm_id :: "string option"
  crm_name :: "string option"
  crm_email :: "string option"
  crm_address :: "string option"
  crm_phone :: "string option"

record message =
  m_id :: "string option"
  m_subject :: "string option"
  m_body :: "string option"

datatype txn_date = DateNotStr | DateInvalid | DateNaive | DateAware int

record txn =
  t_date :: txn_date
  t_product :: string

record env =
  crm_file :: "crm_profile option"
  gmail_export_file :: "message list option"
  data_files :: "(string \<times> string option) list option"
  gmail_available :: bool
  gmail_live :: "message list option"
  transaction_history :: "txn list option"
  now :: int
  cwd :: string
  makedirs_ok :: bool
  write_zip_ok :: bool

text \<open>\<open>str(v or "")\<close> for an optional string, and \<open>d.get(k, "")\<close>.\<close>

definition opt_str :: "string option \<Rightarrow> string" where
  "opt_str v = (case v of None \<Rightarrow> [] | Some s \<Rightarrow> s)"

text \<open>\<open>_known_subject_identifiers\<close>: the subject's own emails and phones.\<close>

record subject_ids =
  emails :: "string set"
  phones :: "string set"

definition known_subject_identifiers :: "env \<Rightarrow> PlanRunState \<Rightarrow> subject_ids" where
  "known_subject_identifiers ev st =
     (let emails0 = (if subject_email st \<noteq> [] then {lower (strip (subject_email st))} else {});
          e = (case crm_file ev of None \<Rightarrow> [] | Some crm \<Rightarrow> lower (strip (opt_str (crm_email crm))));
          p = (case crm_file ev of None \<Rightarrow> [] | Some crm \<Rightarrow> strip (opt_str (crm_phone crm)));
          emails1 = (if e \<noteq> [] then insert e emails0 else emails0);
          phones1 = (if p \<noteq> [] then {p} else {});
          e2 = lower (strip (opt_str (id_email (identity st))));
          p2 = strip (opt_str (id_phone (identity st)));
          emails2 = (if e2 \<noteq> [] then insert e2 emails1 else emails1);
          phones2 = (if p2 \<noteq> [] then insert p2 phones1 else phones1)
      in \<lparr> emails = emails2, phones = phones2 \<rparr>)"

text \<open>
  \<open>verify_identity\<close>. The clarification's message embeds the confidence; the payload here
  carries the confidence itself, then the threshold and the upload's file name and size.
\<close>

definition identity_threshold :: "policy_rec \<Rightarrow> real" where
  "identity_threshold pol =
     (case min_confidence_for_auto_approval pol of
        Some t \<Rightarrow> t
      | None \<Rightarrow> (case min_confidence pol of Some t \<Rightarrow> t | None \<Rightarrow> 0.85))"

definition verify_identity :: "GDPRPlan \<Rightarrow> PlanStepResult \<times> GDPRPlan" where
  "verify_identity pl =
     (let st = state pl;
          threshold = identity_threshold (policy st);
          conf = (case precomputed_confidence (identity st) of Some pre \<Rightarrow> pre | None \<Rightarrow> 0.10);
          stat = (if threshold \<le> conf then ''verified'' else ''unverified'');
          ident = (identity st)\<lparr> confidence := Some conf, status := Some stat \<rparr>;
          pl1 = pl\<lparr> state := st\<lparr> identity := ident \<rparr> \<rparr>;
          pl2 = (if stat \<noteq> ''verified'' then
                   pl1\<lparr> clarifications := clarifications pl1 @
                     [\<lparr> c_type = ''IdentityVerificationClarification'',
                        c_payload = IdentityPayload conf threshold
                          (case upload ident of None \<Rightarrow> None | Some u \<Rightarrow> filename u)
                          (case upload ident of None \<Rightarrow> None | Some u \<Rightarrow> size u) \<rparr>] \<rparr>
                 else pl1);
          pl3 = log ''verify_identity'' (IdentityData ident) pl2;
          ok = (stat = ''verified'')
      in (\<lparr> r_step = ''verify_identity'', r_success = ok, r_data = IdentityData ident,
            r_error = (if ok then None else Some ''Identity not verified'') \<rparr>, pl3))"

definition discover_sources :: "env \<Rightarrow> GDPRPlan \<Rightarrow> PlanStepResult \<times> GDPRPlan" where
  "discover_sources ev pl =
     (let sources =
            [(''gmail_export'', ''data/gmail_export.json''),
             (''crm_profile'', ''data/crm_profile.json''),
             (''files'', ''data/files'')] @
            (if gmail_available ev then [(''gmail_live'', ''gmail:label_or_query'')] else [])
      in (\<lparr> r_step = ''discover_sources'', r_success = True, r_data = SourcesData sources,
            r_error = None \<rparr>,
          log ''discover_sources'' (SourcesData sources) pl))"

text \<open>An f-string prints an absent \<open>m.get('id')\<close> as \<open>None\<close>.\<close>

definition fmt_opt :: "string option \<Rightarrow> string" where
  "fmt_opt v = (case v of None \<Rightarrow> ''None'' | Some s \<Rightarrow> s)"

definition collect_artifacts :: "env \<Rightarrow> GDPRPlan \<Rightarrow> PlanStepResult \<times> GDPRPlan" where
  "collect_artifacts ev pl =
     (let from_export =
            (case gmail_export_file ev of
               Some ms \<Rightarrow>
                 map (\<lambda>m. \<lparr> a_source = ''gmail_export'', a_id = ''gmail_'' @ fmt_opt (m_id m),
                            a_type = ''email'',
                            a_content = opt_str (m_subject m) @ '': '' @ opt_str (m_body m) \<rparr>) ms
             | None \<Rightarrow>
                 [\<lparr> a_source = ''gmail_export'', a_id = ''gmail_1'', a_type = ''email'',
                    a_content = ''Hello Alice, phone +1-555-0101'' \<rparr>]);
          from_crm =
            (case crm_file ev of
               Some crm \<Rightarrow>
                 [\<lparr> a_source = ''crm_profile'',
                    a_id = (case crm_id crm of None \<Rightarrow> ''crm_1'' | Some i \<Rightarrow> i),
                    a_type = ''profile'',
                    a_content = opt_str (crm_name crm) @ '', '' @ opt_str (crm_email crm) @ '', '' @
                                opt_str (crm_address crm) @ '', '' @ opt_str (crm_phone crm) \<rparr>]
             | None \<Rightarrow>
                 [\<lparr> a_source = ''crm_profile'', a_id = ''crm_1'', a_type = ''profile'',
                    a_content = ''Alice, alice@example.com, 221B Baker Street'' \<rparr>]);
          from_files =
            (case data_files ev of
               None \<Rightarrow> []
             | Some fs \<Rightarrow>
                 concat (map (\<lambda>(name, txt). case txt of
                                None \<Rightarrow> []
                              | Some t \<Rightarrow> [\<lparr> a_source = ''files'', a_id = name, a_type = ''file'',
                                             a_content = t \<rparr>]) fs));
          from_live =
            (if gmail_available ev then
               (case gmail_live ev of
                  None \<Rightarrow> []
                | Some ms \<Rightarrow>
                    map (\<lambda>m. \<lparr> a_source = ''gmail_live'', a_id = ''gmail_live_'' @ fmt_opt (m_id m),
                               a_type = ''email'',
                               a_content = opt_str (m_subject m) @ '': '' @ opt_str (m_body m) \<rparr>) ms)
             else []);
          arts = from_export @ from_crm @ from_files @ from_live;
          pl1 = pl\<lparr> state := (state pl)\<lparr> artifacts := arts \<rparr> \<rparr>
      in (\<lparr> r_step = ''collect_artifacts'', r_success = True, r_data = ArtifactsData arts,
            r_error = None \<rparr>,
          log ''collect_artifacts'' (CountDetail (length arts)) pl1))"

text \<open>
  \<open>detect_pii\<close>: every raw finding of every artifact, with the artifact's id and the
  third-party flag.
\<close>

definition classify :: "subject_ids \<Rightarrow> string \<Rightarrow> raw_finding \<Rightarrow> finding" where
  "classify ids aid f =
     (let val = r_value f;
          pii_type = r_pii_type f;
          is_third =
            (if pii_type = ''email'' then lower (strip val) \<notin> emails ids
             else if pii_type = ''phone'' then strip val \<notin> phones ids
             else False)
      in \<lparr> f_artifact_id = aid, f_pii_type = pii_type, f_value = val, f_start = r_start f,
           f_end = r_end f, f_confidence = r_confidence f, f_third_party = is_third \<rparr>)"

definition detect_findings :: "subject_ids \<Rightarrow> artifact list \<Rightarrow> finding list" where
  "detect_findings ids arts =
     concat (map (\<lambda>art. map (classify ids (a_id art)) (detect (a_content art))) arts)"

definition detect_pii :: "env \<Rightarrow> GDPRPlan \<Rightarrow> PlanStepResult \<times> GDPRPlan" where
  "detect_pii ev pl =
     (let ids = known_subject_identifiers ev (state pl);
          findings = detect_findings ids (artifacts (state pl));
          pl1 = pl\<lparr> state := (state pl)\<lparr> pii_findings := findings \<rparr> \<rparr>;
          tp_count = length (filter f_third_party findings)
      in (\<lparr> r_step = ''detect_pii'', r_success = True, r_data = FindingsData findings,
            r_error = None \<rparr>,
          log ''detect_pii'' (DetectDetail (length findings) tp_count) pl1))"

text \<open>
  \<open>apply_minimization\<close> builds the proposals with \<open>enumerate\<close>: the loop is a recursion on
  the findings that carries the index.
\<close>

definition proposal_of :: "nat \<Rightarrow> finding \<Rightarrow> proposal" where
  "proposal_of idx f =
     \<lparr> p_id = CHR ''p'' # show_nat idx,
       p_artifact_id = f_artifact_id f,
       p_pii_type = f_pii_type f,
       p_value = f_value f,
       p_masked_preview = mask_value (f_pii_type f) (f_value f),
       p_start = f_start f,
       p_end = f_end f,
       p_action = ''mask'',
       p_third_party = f_third_party f \<rparr>"

fun build_proposals :: "nat \<Rightarrow> finding list \<Rightarrow> proposal list" where
  "build_proposals idx [] = []"
| "build_proposals idx (f # fs) = proposal_of idx f # build_proposals (Suc idx) fs"

definition apply_minimization :: "GDPRPlan \<Rightarrow> PlanStepResult \<times> GDPRPlan" where
  "apply_minimization pl =
     (let proposals = build_proposals 0 (pii_findings (state pl));
          pl1 = pl\<lparr> state := (state pl)\<lparr> redaction_proposals := proposals \<rparr> \<rparr>;
          tp_count = length (filter p_third_party proposals)
      in (\<lparr> r_step = ''apply_minimization'', r_success = True, r_data = ProposalsData proposals,
            r_error = None \<rparr>,
          log ''apply_minimization'' (MinimizationDetail (length proposals) tp_count) pl1))"

text \<open>
  A Python \<open>dict\<close> keeps insertion order, and assigning to a key that is present keeps the
  key's place: an association list with this update.
\<close>

fun od_update :: "'k \<Rightarrow> 'v \<Rightarrow> ('k \<times> 'v) list \<Rightarrow> ('k \<times> 'v) list" where
  "od_update k v [] = [(k, v)]"
| "od_update k v ((k', v') # kvs) =
     (if k = k' then (k, v) # kvs else (k', v') # od_update k v kvs)"

text \<open>\<open>sorted(list({...}))\<close> of strings.\<close>

definition sorted_set :: "string list \<Rightarrow> string list" where
  "sorted_set xs = sort (remdups xs)"

definition section_content :: "string list \<Rightarrow> string list \<Rightarrow> int \<Rightarrow> string \<Rightarrow> disclosure_content" where
  "section_content pii_categories artifact_types retention_days key =
     (if key = ''purpose_of_processing'' then
        Text (''Respond to your GDPR Data Subject Access Request by collating your personal data, '' @
              ''applying data minimization, and delivering a disclosure package for your review.'')
      else if key = ''categories_of_data'' then Categories pii_categories artifact_types
      else if key = ''recipients'' then
        Items [''You (data subject)'', ''Internal compliance team (review and approval)'',
               ''Supervisory authority upon lawful request'']
      else if key = ''retention_period'' then
        Text (''DSAR artifacts retained for up to '' @ show_int retention_days @
              '' days; originals per system policies.'')
      else if key = ''rights_information'' then
        Text (''You have rights to access, rectification, erasure (subject to exemptions), restriction, objection, '' @
              ''and data portability. Contact DPO for additional requests.'')
      else Text ''Provided.'')"

definition assemble_disclosure :: "GDPRPlan \<Rightarrow> PlanStepResult \<times> GDPRPlan" where
  "assemble_disclosure pl =
     (let st = state pl;
          records = length (artifacts st);
          pii = length (pii_findings st);
          required = require_sections (policy st);
          pii_categories = sorted_set (map f_pii_type (pii_findings st));
          artifact_types = sorted_set (map a_type (artifacts st));
          retention_days =
            (case access_days (policy st) of None \<Rightarrow> 30 | Some d \<Rightarrow> if d = 0 then 30 else d);
          disc = foldl (\<lambda>acc key. od_update key
                          (section_content pii_categories artifact_types retention_days key) acc)
                   [] required;
          pl1 = pl\<lparr> state := st\<lparr> disclosures := disc \<rparr> \<rparr>
      in (\<lparr> r_step = ''assemble_disclosure'', r_success = True,
            r_data = PackageData records pii disc, r_error = None \<rparr>,
          log ''assemble_disclosure'' (AssembleDetail records pii (map fst disc)) pl1))"

definition request_compliance_approval :: "GDPRPlan \<Rightarrow> Clarification \<times> GDPRPlan" where
  "request_compliance_approval pl =
     (let st = state pl;
          tp_count = length (filter p_third_party (redaction_proposals st));
          clar = \<lparr> c_type = ''ComplianceApprovalClarification'',
                   c_payload = CompliancePayload (length (artifacts st))
                     (sorted_set (map f_pii_type (pii_findings st))) tp_count
                     (redaction_proposals st) ''pending'' [] \<rparr>;
          pl1 = pl\<lparr> clarifications := clarifications pl @ [clar] \<rparr>
      in (clar, log ''request_compliance_approval'' (PendingDetail True) pl1))"

text \<open>
  \<open>finalize_delivery\<close>. The selection defaults to every proposal when
  \<open>selected_proposals\<close> is absent or empty. \<open>by_art\<close> groups the selected proposals by
  artifact, in order; each group is sorted by \<open>start\<close>, largest first (Python's sort is
  stable, also with \<open>reverse=True\<close>), and applied to the artifact's text one proposal after
  the other. \<open>os.makedirs\<close> and \<open>write_disclosure_zip\<close> act outside the run record and
  may raise; nothing catches the exception, which leaves the step before \<open>delivery\<close> is set
  and before the audit entry is written. The step returns its result or the exception,
  what the packager was called with (if it was called), and the plan it leaves behind.
\<close>

datatype error = MakedirsError | PackagerError

definition finalize_selected_ids :: "PlanRunState \<Rightarrow> string set" where
  "finalize_selected_ids st =
     set (case selected_proposals (approvals st) of
            None \<Rightarrow> map p_id (redaction_proposals st)
          | Some ids \<Rightarrow> if ids = [] then map p_id (redaction_proposals st) else ids)"

definition art_id_to_text :: "artifact list \<Rightarrow> (string \<times> string) list" where
  "art_id_to_text arts = foldl (\<lambda>acc a. od_update (a_id a) (a_content a) acc) [] arts"

definition by_art_add :: "proposal \<Rightarrow> (string \<times> proposal list) list \<Rightarrow> (string \<times> proposal list) list" where
  "by_art_add p acc =
     (case map_of acc (p_artifact_id p) of
        None \<Rightarrow> acc @ [(p_artifact_id p, [p])]
      | Some ps \<Rightarrow> od_update (p_artifact_id p) (ps @ [p]) acc)"

definition by_art :: "string set \<Rightarrow> proposal list \<Rightarrow> (string \<times> proposal list) list" where
  "by_art sel ps = foldl (\<lambda>acc p. if p_id p \<in> sel then by_art_add p acc else acc) [] ps"

definition apply_one :: "string \<Rightarrow> proposal \<Rightarrow> string" where
  "apply_one text p =
     (let masked = mask_value (p_pii_type p) (p_value p); s = p_start p; e = p_end p in
      if 0 \<le> s \<and> s \<le> e \<and> e \<le> int (length text)
      then slice_to s text @ masked @ slice_from e text
      else text)"

definition sorted_desc :: "proposal list \<Rightarrow> proposal list" where
  "sorted_desc plist = sort_key (\<lambda>x. - p_start x) plist"

definition redact_text :: "string \<Rightarrow> proposal list \<Rightarrow> string" where
  "redact_text text plist = foldl apply_one text (sorted_desc plist)"

definition redact_all :: "(string \<times> proposal list) list \<Rightarrow> (string \<times> string) list \<Rightarrow> (string \<times> string) list" where
  "redact_all groups texts =
     foldl (\<lambda>acc (aid, plist).
              od_update aid (redact_text (case map_of acc aid of None \<Rightarrow> [] | Some t \<Rightarrow> t) plist) acc)
       texts groups"

text \<open>\<open>os.path.join\<close> of two components.\<close>

definition path_join :: "string \<Rightarrow> string \<Rightarrow> string" where
  "path_join a b =
     (if b \<noteq> [] \<and> hd b = CHR ''/'' then b
      else if a = [] \<or> last a = CHR ''/'' then a @ b
      else a @ ''/'' @ b)"

text \<open>What \<open>write_disclosure_zip\<close> is called with.\<close>

record archive =
  ar_path :: string
  ar_subject :: string
  ar_original_artifacts :: "artifact list"
  ar_redacted_artifacts :: "(string \<times> string) list"
  ar_pii_findings :: "finding list"
  ar_applied_proposals :: "proposal list"
  ar_disclosures :: "(string \<times> disclosure_content) list"
  ar_audit :: "audit_entry list"
  ar_policy :: policy_rec
  ar_approvals :: approvals_rec

definition compliance_decision :: "PlanRunState \<Rightarrow> string option" where
  "compliance_decision st =
     (case compliance (approvals st) of None \<Rightarrow> None | Some a \<Rightarrow> decision a)"

definition redacted_artifacts :: "PlanRunState \<Rightarrow> (string \<times> string) list" where
  "redacted_artifacts st =
     redact_all (by_art (finalize_selected_ids st) (redaction_proposals st))
       (art_id_to_text (artifacts st))"

definition finalize_delivery ::
  "env \<Rightarrow> GDPRPlan \<Rightarrow> (error + PlanStepResult) \<times> archive option \<times> GDPRPlan" where
  "finalize_delivery ev pl =
     (let st = state pl in
      if compliance_decision st \<noteq> Some ''approved'' then
        (Inr \<lparr> r_step = ''finalize_delivery'', r_success = False, r_data = NoData,
               r_error = Some ''Not approved'' \<rparr>, None, pl)
      else
        let selected_ids = finalize_selected_ids st;
            out_dir = path_join (cwd ev) ''out'';
            output_path = path_join out_dir (request_id st @ ''.zip'');
            ar = \<lparr> ar_path = output_path, ar_subject = subject_email st,
                   ar_original_artifacts = artifacts st,
                   ar_redacted_artifacts = redacted_artifacts st,
                   ar_pii_findings = pii_findings st,
                   ar_applied_proposals = filter (\<lambda>p. p_id p \<in> selected_ids) (redaction_proposals st),
                   ar_disclosures = disclosures st, ar_audit = audit_log st,
                   ar_policy = policy st, ar_approvals = approvals st \<rparr>;
            pl1 = pl\<lparr> state := st\<lparr> delivery := Some output_path \<rparr> \<rparr>
        in if \<not> makedirs_ok ev then (Inl MakedirsError, None, pl)
           else if \<not> write_zip_ok ev then (Inl PackagerError, Some ar, pl)
           else
             (Inr \<lparr> r_step = ''finalize_delivery'', r_success = True,
                    r_data = DeliveredDetail True output_path, r_error = None \<rparr>,
              Some ar,
              log ''finalize_delivery'' (DeliveredDetail True output_path) pl1))"

text \<open>
  \<open>evaluate_legal_basis\<close>. The loop over the transactions skips a date that is not a
  string or does not parse (\<open>continue\<close>). Subtracting a date-time without offset from the
  UTC clock raises \<open>TypeError\<close>, which the \<open>except\<close> around the whole loop catches: the
  loop ends there with the flags set so far. \<open>(now - dt).days\<close> is the floor of the difference
  in days.
\<close>

definition delta_days :: "int \<Rightarrow> int \<Rightarrow> int" where
  "delta_days nw dt = (nw - dt) div 86400000000"

fun scan_txns :: "int \<Rightarrow> int \<Rightarrow> int \<Rightarrow> txn list \<Rightarrow> bool \<times> bool \<Rightarrow> bool \<times> bool" where
  "scan_txns nw fin_days svc_days [] acc = acc"
| "scan_txns nw fin_days svc_days (t # ts) acc =
     (case t_date t of
        DateNotStr \<Rightarrow> scan_txns nw fin_days svc_days ts acc
      | DateInvalid \<Rightarrow> scan_txns nw fin_days svc_days ts acc
      | DateNaive \<Rightarrow> acc
      | DateAware dt \<Rightarrow>
          scan_txns nw fin_days svc_days ts
            (fst acc \<or> (0 < fin_days \<and> delta_days nw dt < fin_days),
             snd acc \<or> (0 < svc_days \<and> contains ''subscription'' (lower (t_product t)) \<and>
                        delta_days nw dt < svc_days)))"

definition retention_flags :: "env \<Rightarrow> policy_rec \<Rightarrow> bool \<times> bool" where
  "retention_flags ev pol =
     (let fin_days = (case financial_transaction_days pol of None \<Rightarrow> 0 | Some d \<Rightarrow> d);
          svc_days = (case active_service_days pol of None \<Rightarrow> 0 | Some d \<Rightarrow> d)
      in case transaction_history ev of
           None \<Rightarrow> (False, False)
         | Some txns \<Rightarrow> scan_txns (now ev) fin_days svc_days txns (False, False))"

definition legal_reasons :: "bool \<Rightarrow> bool \<Rightarrow> bool \<Rightarrow> string list" where
  "legal_reasons hld retain_financial retain_active =
     (if hld then [''legal_hold''] else []) @
     (if retain_financial then [''retain_financial_records''] else []) @
     (if retain_active then [''retain_active_service''] else [])"

definition evaluate_legal_basis :: "env \<Rightarrow> GDPRPlan \<Rightarrow> PlanStepResult \<times> GDPRPlan" where
  "evaluate_legal_basis ev pl =
     (let st = state pl;
          hld = (hold (legal st) = Some True);
          flags = retention_flags ev (policy st);
          reasons = legal_reasons hld (fst flags) (snd flags);
          allow = (reasons = []);
          lg = (legal st)\<lparr> hold := Some hld, retain_financial_records := Some (fst flags),
                 retain_active_service := Some (snd flags), allow_erasure := Some allow \<rparr>;
          pl1 = pl\<lparr> state := st\<lparr> legal := lg \<rparr> \<rparr>
      in (\<lparr> r_step = ''evaluate_legal_basis'', r_success = True,
            r_data = LegalDetail hld reasons allow, r_error = None \<rparr>,
          log ''evaluate_legal_basis'' (LegalDetail hld reasons allow) pl1))"

definition request_legal_approval :: "GDPRPlan \<Rightarrow> Clarification \<times> GDPRPlan" where
  "request_legal_approval pl =
     (let clar = \<lparr> c_type = ''LegalApprovalClarification'',
                   c_payload = LegalPayload ''erasure''
                     (if hold (legal (state pl)) = Some True then [''legal_hold''] else [])
                     ''pending'' [] \<rparr>;
          pl1 = pl\<lparr> clarifications := clarifications pl @ [clar] \<rparr>
      in (clar, log ''request_legal_approval'' (PendingDetail True) pl1))"

definition execute_erasure :: "GDPRPlan \<Rightarrow> PlanStepResult \<times> GDPRPlan" where
  "execute_erasure pl =
     (let deleted = map (\<lambda>a. \<lparr> d_id = a_id a, d_source = a_source a, d_status = ''deleted'' \<rparr>)
                      (artifacts (state pl));
          pl1 = pl\<lparr> state := (state pl)\<lparr> erasure := Some deleted \<rparr> \<rparr>
      in (\<lparr> r_step = ''execute_erasure'', r_success = True, r_data = DeletedData deleted,
            r_error = None \<rparr>,
          log ''execute_erasure'' (CountDetail (length deleted)) pl1))"

definition confirm_completion :: "GDPRPlan \<Rightarrow> PlanStepResult \<times> GDPRPlan" where
  "confirm_completion pl =
     (let n = (case erasure (state pl) of None \<Rightarrow> 0 | Some d \<Rightarrow> length d) in
      (\<lparr> r_step = ''confirm_completion'', r_success = True, r_data = ConfirmDetail True n,
         r_error = None \<rparr>,
       log ''confirm_completion'' (ConfirmDetail True n) pl))"

text \<open>One invocation of a step on a plan, keeping the plan it leaves behind.\<close>

datatype step =
    VerifyIdentity | DiscoverSources | CollectArtifacts | DetectPii | ApplyMinimization
  | AssembleDisclosure | RequestComplianceApproval | FinalizeDelivery | EvaluateLegalBasis
  | RequestLegalApproval | ExecuteErasure | ConfirmCompletion

fun run_step :: "env \<Rightarrow> step \<Rightarrow> GDPRPlan \<Rightarrow> GDPRPlan" where
  "run_step ev VerifyIdentity pl = snd (verify_identity pl)"
| "run_step ev DiscoverSources pl = snd (discover_sources ev pl)"
| "run_step ev CollectArtifacts pl = snd (collect_artifacts ev pl)"
| "run_step ev DetectPii pl = snd (detect_pii ev pl)"
| "run_step ev ApplyMinimization pl = snd (apply_minimization pl)"
| "run_step ev AssembleDisclosure pl = snd (assemble_disclosure pl)"
| "run_step ev RequestComplianceApproval pl = snd (request_compliance_approval pl)"
| "run_step ev FinalizeDelivery pl = snd (snd (finalize_delivery ev pl))"
| "run_step ev EvaluateLegalBasis pl = snd (evaluate_legal_basis ev pl)"
| "run_step ev RequestLegalApproval pl = snd (request_legal_approval pl)"
| "run_step ev ExecuteErasure pl = snd (execute_erasure pl)"
| "run_step ev ConfirmCompletion pl = snd (confirm_completion pl)"

section \<open>Example run records\<close>

text \<open>A fresh run record and plan, and an environment without any data file.\<close>

definition policy0 :: policy_rec where
  "policy0 =
     \<lparr> min_confidence_for_auto_approval = None, min_confidence = None,
       require_sections = [], required_types = [],
       allow_override_with_justification = False,
       financial_transaction_days = None, active_service_days = None,
       access_days = None \<rparr>"

definition state0 :: PlanRunState where
  "state0 =
     \<lparr> request_id = ''r1'', subject_email = ''alice@example.com'', request_types = [''access''],
       artifacts = [], pii_findings = [], redaction_proposals = [],
       approvals = \<lparr> compliance = None, legal_approval = None, selected_proposals = None \<rparr>,
       policy = policy0,
       identity = \<lparr> status = None, confidence = None, precomputed_confidence = None,
                    upload = None, id_email = None, id_phone = None \<rparr>,
       legal = \<lparr> hold = None, retain_financial_records = None, retain_active_service = None,
                 allow_erasure = None \<rparr>,
       audit_log = [], disclosures = [], delivery = None, erasure = None \<rparr>"

definition plan_of :: "PlanRunState \<Rightarrow> GDPRPlan" where
  "plan_of st = \<lparr> state = st, clarifications = [] \<rparr>"

definition env0 :: env where
  "env0 =
     \<lparr> crm_file = None, gmail_export_file = None, data_files = None, gmail_available = False,
       gmail_live = None, transaction_history = None, now = 0, cwd = ''/srv'',
       makedirs_ok = True, write_zip_ok = True \<rparr>"

definition mk_finding :: "string \<Rightarrow> string \<Rightarrow> string \<Rightarrow> int \<Rightarrow> int \<Rightarrow> finding" where
  "mk_finding aid ty val s e =
     \<lparr> f_artifact_id = aid, f_pii_type = ty, f_value = val, f_start = s, f_end = e,
       f_confidence = 0.9, f_third_party = False \<rparr>"

definition c4_plan :: GDPRPlan where
  "c4_plan =
     plan_of (state0\<lparr> pii_findings :=
       [mk_finding ''crm_1'' ''email'' ''al@example.com'' 0 14,
        mk_finding ''crm_1'' ''phone'' ''+1-555-0101'' 16 27] \<rparr>)"

text \<open>
  The required findings the guard counts: those of a required type for which no selected
  proposal of a required type has the same \<open>(artifact_id, start, end)\<close>.
\<close>

definition unmatched_required :: "PlanRunState \<Rightarrow> finding list" where
  "unmatched_required st =
     filter (\<lambda>f. f_pii_type f \<in> set (required_types (policy st)) \<and>
                 \<not> (\<exists>p \<in> set (redaction_proposals st).
                       p_id p \<in> selected_ids_of st \<and>
                       p_pii_type p \<in> set (required_types (policy st)) \<and>
                       proposal_key p = finding_key f))
       (pii_findings st)"

text \<open>
  The same count in the words of the specification: a finding is matched only by a
  selected proposal of the finding's own type.
\<close>

definition unmatched_same_type :: "PlanRunState \<Rightarrow> finding list" where
  "unmatched_same_type st =
     filter (\<lambda>f. f_pii_type f \<in> set (required_types (policy st)) \<and>
                 \<not> (\<exists>p \<in> set (redaction_proposals st).
                       p_id p \<in> selected_ids_of st \<and>
                       p_pii_type p = f_pii_type f \<and>
                       proposal_key p = finding_key f))
       (pii_findings st)"

definition mk_proposal :: "string \<Rightarrow> string \<Rightarrow> string \<Rightarrow> string \<Rightarrow> int \<Rightarrow> int \<Rightarrow> proposal" where
  "mk_proposal pid aid ty val s e =
     \<lparr> p_id = pid, p_artifact_id = aid, p_pii_type = ty, p_value = val,
       p_masked_preview = mask_value ty val, p_start = s, p_end = e, p_action = ''mask'',
       p_third_party = False \<rparr>"

definition mk_approval :: "string \<Rightarrow> string \<Rightarrow> approval" where
  "mk_approval dec just = \<lparr> decision = Some dec, justification = Some just \<rparr>"

text \<open>
  One phone finding in artifact \<open>a1\<close> and a policy that requires phone (and email)
  redaction; the compliance approval selects \<open>sel\<close> and carries \<open>just\<close>.
\<close>

definition guard_state :: "proposal list \<Rightarrow> string list \<Rightarrow> bool \<Rightarrow> string \<Rightarrow> PlanRunState" where
  "guard_state props sel override just =
     state0\<lparr> pii_findings := [mk_finding ''a1'' ''phone'' ''+1-555-0101'' 0 11],
             redaction_proposals := props,
             policy := policy0\<lparr> required_types := [''email'', ''phone''],
                                allow_override_with_justification := override \<rparr>,
             approvals := \<lparr> compliance = Some (mk_approval ''approved'' just),
                            legal_approval = None, selected_proposals = Some sel \<rparr> \<rparr>"

definition erasure_state :: "bool \<Rightarrow> string \<Rightarrow> bool \<Rightarrow> bool \<Rightarrow> bool \<Rightarrow> PlanRunState" where
  "erasure_state h dec allow rf ra =
     state0\<lparr> legal := \<lparr> hold = Some h, retain_financial_records = Some rf,
                        retain_active_service = Some ra, allow_erasure = Some allow \<rparr>,
             approvals := \<lparr> compliance = None, legal_approval = Some (mk_approval dec []),
                            selected_proposals = None \<rparr> \<rparr>"

text \<open>
  A run record after collection and minimization: one artifact, one phone proposal, and a
  compliance approval with decision \<open>dec\<close> and selection \<open>sel\<close>.
\<close>

definition delivery_state :: "string \<Rightarrow> string list option \<Rightarrow> PlanRunState" where
  "delivery_state dec sel =
     state0\<lparr> artifacts := [\<lparr> a_source = ''gmail_export'', a_id = ''gmail_1'', a_type = ''email'',
                              a_content = ''Hello Alice, phone +1-555-0101'' \<rparr>],
             pii_findings := [mk_finding ''gmail_1'' ''phone'' ''+1-555-0101'' 19 30],
             redaction_proposals := [mk_proposal ''p0'' ''gmail_1'' ''phone'' ''+1-555-0101'' 19 30],
             approvals := \<lparr> compliance = Some (mk_approval dec []), legal_approval = None,
                            selected_proposals = sel \<rparr> \<rparr>"

text \<open>
  A fresh run with the two identity thresholds of the policy and the precomputed confidence
  as given.
\<close>

definition identity_state :: "real option \<Rightarrow> real option \<Rightarrow> real option \<Rightarrow> PlanRunState" where
  "identity_state auto minc pre =
     state0\<lparr> policy := policy0\<lparr> min_confidence_for_auto_approval := auto,
                                min_confidence := minc \<rparr>,
             identity := \<lparr> status = None, confidence = None, precomputed_confidence = pre,
                           upload = None, id_email = None, id_phone = None \<rparr> \<rparr>"

text \<open>The transactions the legal-basis step sees: none when the history cannot be read.\<close>

definition txns_of :: "env \<Rightarrow> txn list" where
  "txns_of ev = (case transaction_history ev of None \<Rightarrow> [] | Some ts \<Rightarrow> ts)"

definition fin_days_of :: "policy_rec \<Rightarrow> int" where
  "fin_days_of pol = (case financial_transaction_days pol of None \<Rightarrow> 0 | Some d \<Rightarrow> d)"

definition svc_days_of :: "policy_rec \<Rightarrow> int" where
  "svc_days_of pol = (case active_service_days pol of None \<Rightarrow> 0 | Some d \<Rightarrow> d)"

text \<open>
  An erasure run ten days after the epoch, with the given retention thresholds and
  transaction history; the legal approval is \<open>approved\<close>.
\<close>

definition day :: int where
  "day = 86400000000"

definition legal_env :: "txn list \<Rightarrow> env" where
  "legal_env ts = env0\<lparr> transaction_history := Some ts, now := 10 * day \<rparr>"

definition legal_plan :: "int option \<Rightarrow> int option \<Rightarrow> GDPRPlan" where
  "legal_plan fin svc =
     plan_of (state0\<lparr> request_types := [''erasure''],
                      policy := policy0\<lparr> financial_transaction_days := fin,
                                         active_service_days := svc \<rparr>,
                      approvals := \<lparr> compliance = None,
                                     legal_approval = Some (mk_approval ''approved'' []),
                                     selected_proposals = None \<rparr> \<rparr>)"

definition c6_txns :: "txn list" where
  "c6_txns =
     [\<lparr> t_date = DateInvalid, t_product = ''Order 16'' \<rparr>,
      \<lparr> t_date = DateAware (5 * day), t_product = ''Order 17'' \<rparr>]"

definition c6_future_txns :: "txn list" where
  "c6_future_txns = [\<lparr> t_date = DateAware (11 * day), t_product = ''Premium Subscription'' \<rparr>]"


definition selected_for :: "PlanRunState \<Rightarrow> string \<Rightarrow> proposal list" where
  "selected_for st aid =
     filter (\<lambda>p. p_id p \<in> finalize_selected_ids st \<and> p_artifact_id p = aid)
       (redaction_proposals st)"



text \<open>Whether a proposal's offsets lie inside a text, as \<open>finalize_delivery\<close> tests it.\<close>

definition in_range :: "string \<Rightarrow> proposal \<Rightarrow> bool" where
  "in_range text p = (0 \<le> p_start p \<and> p_start p \<le> p_end p \<and> p_end p \<le> int (length text))"

text \<open>
  Whether \<open>finalize_delivery\<close> returns a successful result, and the content of an artifact
  id in the archive of a successful delivery.
\<close>

definition succeeds :: "env \<Rightarrow> GDPRPlan \<Rightarrow> bool" where
  "succeeds ev pl =
     (case fst (finalize_delivery ev pl) of Inl e \<Rightarrow> False | Inr res \<Rightarrow> r_success res)"

definition delivered :: "env \<Rightarrow> GDPRPlan \<Rightarrow> string \<Rightarrow> string option" where
  "delivered ev pl aid =
     (if succeeds ev pl then
        (case fst (snd (finalize_delivery ev pl)) of
           None \<Rightarrow> None
         | Some ar \<Rightarrow> map_of (ar_redacted_artifacts ar) aid)
      else None)"

text \<open>The ids of the proposals the archive of a successful delivery lists as applied.\<close>

definition applied_ids :: "env \<Rightarrow> GDPRPlan \<Rightarrow> string list" where
  "applied_ids ev pl =
     (if succeeds ev pl then
        (case fst (snd (finalize_delivery ev pl)) of
           None \<Rightarrow> []
         | Some ar \<Rightarrow> map p_id (ar_applied_proposals ar))
      else [])"

text \<open>
  An approved run over one artifact with the given content and proposals, every proposal
  selected by default.
\<close>

definition approved_state :: "string \<Rightarrow> proposal list \<Rightarrow> PlanRunState" where
  "approved_state txt props =
     state0\<lparr> artifacts := [\<lparr> a_source = ''crm_profile'', a_id = ''a1'', a_type = ''profile'',
                              a_content = txt \<rparr>],
             redaction_proposals := props,
             approvals := \<lparr> compliance = Some (mk_approval ''approved'' []),
                            legal_approval = None, selected_proposals = None \<rparr> \<rparr>"

definition overlap_proposals :: "proposal list" where
  "overlap_proposals =
     [mk_proposal ''p0'' ''a1'' ''email'' ''123456789@ab.cd'' 0 15,
      mk_proposal ''p1'' ''a1'' ''phone'' ''123456789'' 0 9]"


definition stretched_proposals :: "proposal list" where
  "stretched_proposals =
     [mk_proposal ''p0'' ''a1'' ''address'' ''x'' 0 5,
      mk_proposal ''p1'' ''a1'' ''address'' ''y'' 1 2]"

text \<open>
  The detector's proposals for the content \<open>john.smith.5551234567@x.com\<close>: the email, and
  the phone number inside its local part.
\<close>

definition john_text :: string where
  "john_text = ''john.smith.5551234567@x.com''"

definition john_proposals :: "proposal list" where
  "john_proposals =
     [mk_proposal ''p0'' ''a1'' ''email'' ''john.smith.5551234567@x.com'' 0 27,
      mk_proposal ''p1'' ''a1'' ''phone'' ''5551234567'' 11 21]"


text \<open>
  A run whose single artifact holds the subject's email in another case, the email of
  someone else, and a phone number that the CRM profile gives for the subject; the identity
  hints name a further email of the subject.
\<close>

definition c5_env :: env where
  "c5_env =
     env0\<lparr> crm_file := Some \<lparr> crm_id = None, crm_name = None, crm_email = None,
                               crm_address = None, crm_phone = Some '' 1234567890'' \<rparr> \<rparr>"

definition c5_plan :: GDPRPlan where
  "c5_plan =
     plan_of (state0\<lparr> subject_email := '' a@b.io'',
                      artifacts := [\<lparr> a_source = ''files'', a_id = ''a1'', a_type = ''file'',
                                       a_content = ''A@b.io c@d.io 1234567890'' \<rparr>],
                      identity := \<lparr> status = None, confidence = None,
                                    precomputed_confidence = None, upload = None,
                                    id_email = Some ''Q@r.io'', id_phone = None \<rparr> \<rparr>)"

definition c5_email :: finding where
  "c5_email =
     \<lparr> f_artifact_id = ''a1'', f_pii_type = ''email'', f_value = ''A@b.io'', f_start = 0,
       f_end = 6, f_confidence = 0.99, f_third_party = False \<rparr>"

definition c5_other :: finding where
  "c5_other =
     \<lparr> f_artifact_id = ''a1'', f_pii_type = ''email'', f_value = ''c@d.io'', f_start = 7,
       f_end = 13, f_confidence = 0.99, f_third_party = True \<rparr>"

definition c5_phone :: finding where
  "c5_phone =
     \<lparr> f_artifact_id = ''a1'', f_pii_type = ''phone'', f_value = ''1234567890'', f_start = 14,
       f_end = 24, f_confidence = 0.9, f_third_party = False \<rparr>"

section \<open>Properties\<close>

lemma split_at_nonempty: "split_at c s \<noteq> []"
  by (induction s) (auto split: list.splits)

lemma split_at_no_sep: "c \<notin> set s \<Longrightarrow> split_at c s = [s]"
  by (induction s) auto

lemma split_at_one_sep:
  "c \<notin> set l \<Longrightarrow> c \<notin> set d \<Longrightarrow> split_at c (l @ c # d) = [l, d]"
  by (induction l) (auto simp: split_at_no_sep)

lemma length_split_at: "length (split_at c s) = Suc (count_list s c)"
  by (induction s) (auto split: list.splits simp: split_at_nonempty)

lemma length_build_proposals: "length (build_proposals idx fs) = length fs"
  by (induction fs arbitrary: idx) auto

lemma nth_build_proposals:
  "i < length fs \<Longrightarrow> build_proposals idx fs ! i = proposal_of (idx + i) (fs ! i)"
proof (induction fs arbitrary: idx i)
  case Nil
  then show ?case by simp
next
  case (Cons f fs)
  show ?case
  proof (cases i)
    case 0
    then show ?thesis by simp
  next
    case (Suc j)
    with Cons.prems have "j < length fs" by simp
    from Cons.IH [OF this, of "Suc idx"] Suc show ?thesis by simp
  qed
qed

text \<open>
  Claim C4. \<open>mask_value\<close> returns, for an email whose value has exactly one \<open>@\<close>, the first
  two characters of the local part, then \<open>***@\<close> and the domain, and \<open>***\<close> when the number
  of \<open>@\<close> is not one; for a phone, \<open>***\<close> and the last four characters; for any other type
  the token \<open>[REDACTED]\<close>. \<open>apply_minimization\<close> emits one proposal per finding, the
  \<open>i\<close>-th with id \<open>p\<close> followed by \<open>i\<close>, the masked preview of the finding's value, and
  the finding's artifact id, type, value and offsets.
\<close>

theorem mask_value_and_proposals:
  fixes pl :: GDPRPlan
  defines "fs \<equiv> pii_findings (state pl)"
    and "ps \<equiv> redaction_proposals (state (snd (apply_minimization pl)))"
  shows "(CHR ''@'' \<notin> set l \<and> CHR ''@'' \<notin> set d \<longrightarrow>
            mask_value ''email'' (l @ CHR ''@'' # d) = take 2 l @ ''***@'' @ d)
       \<and> (count_list v CHR ''@'' \<noteq> 1 \<longrightarrow> mask_value ''email'' v = ''***'')
       \<and> mask_value ''phone'' w = ''***'' @ drop (length w - 4) w
       \<and> (t \<noteq> ''email'' \<and> t \<noteq> ''phone'' \<longrightarrow> mask_value t u = ''[REDACTED]'')
       \<and> length ps = length fs
       \<and> (i < length fs \<longrightarrow>
            p_id (ps ! i) = CHR ''p'' # show_nat i
          \<and> p_masked_preview (ps ! i) = mask_value (f_pii_type (fs ! i)) (f_value (fs ! i))
          \<and> p_artifact_id (ps ! i) = f_artifact_id (fs ! i)
          \<and> p_pii_type (ps ! i) = f_pii_type (fs ! i)
          \<and> p_value (ps ! i) = f_value (fs ! i)
          \<and> p_start (ps ! i) = f_start (fs ! i)
          \<and> p_end (ps ! i) = f_end (fs ! i))"
proof -
  have ps: "ps = build_proposals 0 fs"
    by (simp add: ps_def fs_def apply_minimization_def log_def Let_def)
  have e1: "CHR ''@'' \<notin> set l \<and> CHR ''@'' \<notin> set d \<longrightarrow>
            mask_value ''email'' (l @ CHR ''@'' # d) = take 2 l @ ''***@'' @ d"
    by (simp add: mask_value_def split_at_one_sep)
  have e2: "count_list v CHR ''@'' \<noteq> 1 \<longrightarrow> mask_value ''email'' v = ''***''"
    by (simp add: mask_value_def length_split_at)
  have ph: "mask_value ''phone'' w = ''***'' @ drop (length w - 4) w"
    by (simp add: mask_value_def)
  have ot: "t \<noteq> ''email'' \<and> t \<noteq> ''phone'' \<longrightarrow> mask_value t u = ''[REDACTED]''"
    by (simp add: mask_value_def)
  have len: "length ps = length fs"
    by (simp add: ps length_build_proposals)
  have nth: "i < length fs \<longrightarrow> ps ! i = proposal_of i (fs ! i)"
    by (simp add: ps nth_build_proposals)
  have nthp: "i < length fs \<longrightarrow>
            p_id (ps ! i) = CHR ''p'' # show_nat i
          \<and> p_masked_preview (ps ! i) = mask_value (f_pii_type (fs ! i)) (f_value (fs ! i))
          \<and> p_artifact_id (ps ! i) = f_artifact_id (fs ! i)
          \<and> p_pii_type (ps ! i) = f_pii_type (fs ! i)
          \<and> p_value (ps ! i) = f_value (fs ! i)
          \<and> p_start (ps ! i) = f_start (fs ! i)
          \<and> p_end (ps ! i) = f_end (fs ! i)"
  proof
    assume "i < length fs"
    with nth have "ps ! i = proposal_of i (fs ! i)" by blast
    then show "p_id (ps ! i) = CHR ''p'' # show_nat i
          \<and> p_masked_preview (ps ! i) = mask_value (f_pii_type (fs ! i)) (f_value (fs ! i))
          \<and> p_artifact_id (ps ! i) = f_artifact_id (fs ! i)
          \<and> p_pii_type (ps ! i) = f_pii_type (fs ! i)
          \<and> p_value (ps ! i) = f_value (fs ! i)
          \<and> p_start (ps ! i) = f_start (fs ! i)
          \<and> p_end (ps ! i) = f_end (fs ! i)"
      by (simp add: proposal_of_def)
  qed
  show ?thesis
    by (intro conjI) (rule e1 e2 ph ot len nthp)+
qed

theorem mask_value_and_proposals_witness:
  "mask_value ''email'' ''al@example.com'' = ''al***@example.com''
   \<and> mask_value ''email'' ''a@b@c'' = ''***''
   \<and> mask_value ''phone'' ''+1-555-0101'' = ''***0101''
   \<and> mask_value ''address'' ''x'' = ''[REDACTED]''
   \<and> length (redaction_proposals (state (snd (apply_minimization c4_plan)))) = 2
   \<and> (1::nat) < length (pii_findings (state c4_plan))
   \<and> p_id (redaction_proposals (state (snd (apply_minimization c4_plan))) ! 1) = ''p1''
   \<and> p_masked_preview (redaction_proposals (state (snd (apply_minimization c4_plan))) ! 1) = ''***0101''
   \<and> p_start (redaction_proposals (state (snd (apply_minimization c4_plan))) ! 1) = 16
   \<and> p_end (redaction_proposals (state (snd (apply_minimization c4_plan))) ! 1) = 27"
  using mask_value_and_proposals [of "''al''" "''example.com''" "''a@b@c''" "''+1-555-0101''"
      "''address''" "''x''" c4_plan 1]
  by (simp add: c4_plan_def plan_of_def state0_def mk_finding_def mask_value_def digit_char_def
      show_nat.simps)

lemma missing_required_count:
  "length (filter (\<lambda>f. finding_key f \<notin> set (map proposal_key
              (filter (\<lambda>p. p_id p \<in> selected_ids_of st \<and> p_pii_type p \<in> set (required_types (policy st)))
                 (redaction_proposals st))))
            (filter (\<lambda>f. f_pii_type f \<in> set (required_types (policy st))) (pii_findings st)))
   = length (unmatched_required st)"
  unfolding unmatched_required_def filter_filter
  by (rule arg_cong [where f = length], rule filter_cong) (force simp: image_iff)+

lemma unmatched_required_Nil:
  "filter (\<lambda>f. f_pii_type f \<in> set (required_types (policy st))) (pii_findings st) = []
   \<Longrightarrow> unmatched_required st = []"
  by (auto simp: unmatched_required_def filter_empty_conv)

text \<open>
  Claim C1, as the code has it. Under a legal hold the guard denies with
  \<open>Legal hold active\<close>; else, when a required disclosure section is missing, it denies
  naming the missing sections; else it counts the findings of a required type that no
  selected proposal of a required type (not necessarily the finding's own type) matches on
  \<open>(artifact_id, start, end)\<close>: with none it allows; with \<open>N > 0\<close> of them it allows
  iff the override is enabled and the compliance justification is not empty, and otherwise
  denies with \<open>Missing required redactions: N\<close>.
\<close>

theorem pre_finalize_guard_required_redactions:
  "pre_finalize_guard st =
     (if hold (legal st) = Some True then Deny ''Legal hold active''
      else if filter (\<lambda>s. s \<notin> fst ` set (disclosures st)) (require_sections (policy st)) \<noteq> []
      then Deny (''Missing disclosures: '' @
                 join '', '' (filter (\<lambda>s. s \<notin> fst ` set (disclosures st)) (require_sections (policy st))))
      else if unmatched_required st = [] then Allow
      else if allow_override_with_justification (policy st) \<and> compliance_justification st \<noteq> []
      then Allow
      else Deny (''Missing required redactions: '' @ show_nat (length (unmatched_required st))))"
proof -
  let ?req = "filter (\<lambda>f. f_pii_type f \<in> set (required_types (policy st))) (pii_findings st)"
  show ?thesis
  proof (cases "?req = []")
    case True
    then have "unmatched_required st = []" by (rule unmatched_required_Nil)
    with True show ?thesis by (simp add: pre_finalize_guard_def Let_def)
  next
    case False
    then have ne: "set (required_types (policy st)) \<noteq> {}" by (auto simp: filter_empty_conv)
    have len: "(0 < length (unmatched_required st)) = (unmatched_required st \<noteq> [])" by simp
    from False ne show ?thesis
      unfolding pre_finalize_guard_def Let_def missing_required_count len
      by simp
  qed
qed

theorem pre_finalize_guard_required_redactions_witness:
  "pre_finalize_guard (guard_state [mk_proposal ''p0'' ''a1'' ''phone'' ''+1-555-0101'' 0 11] [] False [])
     = Deny ''Missing required redactions: 1''
   \<and> pre_finalize_guard (guard_state [mk_proposal ''p0'' ''a1'' ''phone'' ''+1-555-0101'' 0 11] [''p0''] False [])
     = Allow
   \<and> pre_finalize_guard (guard_state [mk_proposal ''p0'' ''a1'' ''phone'' ''+1-555-0101'' 0 11] [] True ''agreed'')
     = Allow
   \<and> pre_finalize_guard (guard_state [mk_proposal ''p0'' ''a1'' ''phone'' ''+1-555-0101'' 0 11] [] True [])
     = Deny ''Missing required redactions: 1''"
  using pre_finalize_guard_required_redactions
          [of "guard_state [mk_proposal ''p0'' ''a1'' ''phone'' ''+1-555-0101'' 0 11] [] False []"]
        pre_finalize_guard_required_redactions
          [of "guard_state [mk_proposal ''p0'' ''a1'' ''phone'' ''+1-555-0101'' 0 11] [''p0''] False []"]
        pre_finalize_guard_required_redactions
          [of "guard_state [mk_proposal ''p0'' ''a1'' ''phone'' ''+1-555-0101'' 0 11] [] True ''agreed''"]
        pre_finalize_guard_required_redactions
          [of "guard_state [mk_proposal ''p0'' ''a1'' ''phone'' ''+1-555-0101'' 0 11] [] True []"]
  by (simp add: guard_state_def state0_def policy0_def mk_proposal_def mk_finding_def
        mk_approval_def unmatched_required_def selected_ids_of_def compliance_justification_def
        finding_key_def proposal_key_def show_nat.simps digit_char_def)

text \<open>
  The claim as stated fails twice. A phone finding whose span carries a selected proposal of
  another required type (email) counts as redacted: the guard allows, although no selected
  proposal of the finding's type matches it and no override is in force. And under a legal
  hold the guard denies although the policy requires a type and no required finding is
  unmatched.
\<close>

theorem pre_finalize_guard_same_type_counterexample:
  "pre_finalize_guard (guard_state [mk_proposal ''p0'' ''a1'' ''email'' ''x@y.org'' 0 11] [''p0''] False [])
     = Allow
   \<and> length (unmatched_same_type
        (guard_state [mk_proposal ''p0'' ''a1'' ''email'' ''x@y.org'' 0 11] [''p0''] False [])) = 1
   \<and> pre_finalize_guard
        ((guard_state [mk_proposal ''p0'' ''a1'' ''phone'' ''+1-555-0101'' 0 11] [''p0''] False [])
           \<lparr> legal := \<lparr> hold = Some True, retain_financial_records = None,
                         retain_active_service = None, allow_erasure = None \<rparr> \<rparr>)
     = Deny ''Legal hold active''
   \<and> unmatched_same_type
        ((guard_state [mk_proposal ''p0'' ''a1'' ''phone'' ''+1-555-0101'' 0 11] [''p0''] False [])
           \<lparr> legal := \<lparr> hold = Some True, retain_financial_records = None,
                         retain_active_service = None, allow_erasure = None \<rparr> \<rparr>) = []"
  by (simp add: pre_finalize_guard_def guard_state_def state0_def policy0_def mk_proposal_def
        mk_finding_def mk_approval_def unmatched_same_type_def selected_ids_of_def
        compliance_justification_def finding_key_def proposal_key_def)

text \<open>
  Claim C2. The pre-erasure guard denies with \<open>Legal hold active\<close> under a legal hold,
  whatever the legal approval says; else with \<open>Legal approval missing\<close> unless the legal
  decision is \<open>approved\<close>; else, when \<open>allow_erasure\<close> is false, with the financial-retention
  reason, else the active-service reason, else \<open>Legal basis not met\<close>; and allows
  otherwise.
\<close>

theorem pre_erasure_guard_priority:
  "(hold (legal st) = Some True \<longrightarrow> pre_erasure_guard st = Deny ''Legal hold active'')
   \<and> (hold (legal st) \<noteq> Some True \<and> legal_decision st \<noteq> Some ''approved'' \<longrightarrow>
        pre_erasure_guard st = Deny ''Legal approval missing'')
   \<and> (hold (legal st) \<noteq> Some True \<and> legal_decision st = Some ''approved'' \<and>
      allow_erasure (legal st) = Some False \<and> retain_financial_records (legal st) = Some True \<longrightarrow>
        pre_erasure_guard st = Deny ''Data retained for financial regulations'')
   \<and> (hold (legal st) \<noteq> Some True \<and> legal_decision st = Some ''approved'' \<and>
      allow_erasure (legal st) = Some False \<and> retain_financial_records (legal st) \<noteq> Some True \<and>
      retain_active_service (legal st) = Some True \<longrightarrow>
        pre_erasure_guard st = Deny ''Data retained for active service contract'')
   \<and> (hold (legal st) \<noteq> Some True \<and> legal_decision st = Some ''approved'' \<and>
      allow_erasure (legal st) = Some False \<and> retain_financial_records (legal st) \<noteq> Some True \<and>
      retain_active_service (legal st) \<noteq> Some True \<longrightarrow>
        pre_erasure_guard st = Deny ''Legal basis not met'')
   \<and> (hold (legal st) \<noteq> Some True \<and> legal_decision st = Some ''approved'' \<and>
      allow_erasure (legal st) \<noteq> Some False \<longrightarrow> pre_erasure_guard st = Allow)"
  by (simp add: pre_erasure_guard_def)

theorem pre_erasure_guard_priority_witness:
  "pre_erasure_guard (erasure_state True ''approved'' True False False) = Deny ''Legal hold active''
   \<and> pre_erasure_guard (erasure_state False ''rejected'' True False False) = Deny ''Legal approval missing''
   \<and> pre_erasure_guard (erasure_state False ''approved'' False True True)
       = Deny ''Data retained for financial regulations''
   \<and> pre_erasure_guard (erasure_state False ''approved'' False False True)
       = Deny ''Data retained for active service contract''
   \<and> pre_erasure_guard (erasure_state False ''approved'' False False False) = Deny ''Legal basis not met''
   \<and> pre_erasure_guard (erasure_state False ''approved'' True False False) = Allow"
  using pre_erasure_guard_priority [of "erasure_state True ''approved'' True False False"]
        pre_erasure_guard_priority [of "erasure_state False ''rejected'' True False False"]
        pre_erasure_guard_priority [of "erasure_state False ''approved'' False True True"]
        pre_erasure_guard_priority [of "erasure_state False ''approved'' False False True"]
        pre_erasure_guard_priority [of "erasure_state False ''approved'' False False False"]
        pre_erasure_guard_priority [of "erasure_state False ''approved'' True False False"]
  by (simp add: erasure_state_def state0_def legal_decision_def mk_approval_def)

text \<open>
  Claim C8. \<open>verify_identity\<close> stores the confidence (the precomputed one, or 0.10) and
  sets the status to \<open>verified\<close> iff that confidence is at least the policy threshold:
  \<open>min_confidence_for_auto_approval\<close> when the policy has it, else \<open>min_confidence\<close> when
  the policy has it, else 0.85. The step succeeds in the same case. When the status is not
  \<open>verified\<close> the invocation records exactly one clarification, of type
  \<open>IdentityVerificationClarification\<close> and carrying that threshold, and none otherwise.
\<close>

theorem verify_identity_status:
  fixes pl :: GDPRPlan
  defines "pl' \<equiv> snd (verify_identity pl)"
    and "c \<equiv> (case precomputed_confidence (identity (state pl)) of Some pre \<Rightarrow> pre | None \<Rightarrow> 0.10)"
    and "thr \<equiv> (case min_confidence_for_auto_approval (policy (state pl)) of
                   Some t \<Rightarrow> t
                 | None \<Rightarrow> (case min_confidence (policy (state pl)) of Some t \<Rightarrow> t | None \<Rightarrow> 0.85))"
  shows "confidence (identity (state pl')) = Some c
       \<and> (status (identity (state pl')) = Some ''verified'') = (thr \<le> c)
       \<and> r_success (fst (verify_identity pl)) = (thr \<le> c)
       \<and> (status (identity (state pl')) \<noteq> Some ''verified'' \<longrightarrow>
            (\<exists>clar fn sz. clarifications pl' = clarifications pl @ [clar] \<and>
                    c_type clar = ''IdentityVerificationClarification'' \<and>
                    c_payload clar = IdentityPayload c thr fn sz))
       \<and> (status (identity (state pl')) = Some ''verified'' \<longrightarrow>
            clarifications pl' = clarifications pl)"
  unfolding pl'_def c_def thr_def
  by (simp add: verify_identity_def identity_threshold_def log_def Let_def)

theorem verify_identity_status_witness:
  "status (identity (state (snd (verify_identity (plan_of (identity_state (Some 0.5) (Some 0.99) (Some 0.6)))))))
     = Some ''verified''
   \<and> clarifications (snd (verify_identity (plan_of (identity_state (Some 0.5) (Some 0.99) (Some 0.6))))) = []
   \<and> status (identity (state (snd (verify_identity (plan_of (identity_state None (Some 0.97) (Some 0.95)))))))
     = Some ''unverified''
   \<and> map c_type (clarifications (snd (verify_identity (plan_of (identity_state None (Some 0.97) (Some 0.95))))))
     = [''IdentityVerificationClarification'']
   \<and> status (identity (state (snd (verify_identity (plan_of (identity_state None None (Some 0.85)))))))
     = Some ''verified''
   \<and> status (identity (state (snd (verify_identity (plan_of (identity_state None None None))))))
     = Some ''unverified''
   \<and> length (clarifications (snd (verify_identity (plan_of (identity_state None None None))))) = 1"
  using verify_identity_status [of "plan_of (identity_state (Some 0.5) (Some 0.99) (Some 0.6))"]
        verify_identity_status [of "plan_of (identity_state None (Some 0.97) (Some 0.95))"]
        verify_identity_status [of "plan_of (identity_state None None (Some 0.85))"]
        verify_identity_status [of "plan_of (identity_state None None None)"]
  by (simp add: verify_identity_def log_def Let_def plan_of_def identity_state_def state0_def
        policy0_def identity_threshold_def)

lemma audit_log_log:
  "audit_log (state (log nm d pl)) = audit_log (state pl) @ [\<lparr> e_step = nm, e_detail = d \<rparr>]"
  by (simp add: log_def)

text \<open>
  Claim C9, as the code has it. A step invocation that runs to its end appends exactly one
  entry after the entries that were there, which stay as they were; this is every
  invocation but a \<open>finalize_delivery\<close> that is refused or is left by an exception of
  \<open>os.makedirs\<close> or of the packager. A \<open>finalize_delivery\<close> that is refused because the
  compliance decision is not \<open>approved\<close> returns before it logs and leaves the plan as it
  was. In every case the entries that were there keep their content and position, and at
  most one is appended.
\<close>

theorem step_appends_one_audit_entry:
  "(s = FinalizeDelivery \<and> compliance_decision (state pl) \<noteq> Some ''approved'' \<longrightarrow>
      run_step ev s pl = pl)
   \<and> (\<not> (s = FinalizeDelivery \<and>
          (compliance_decision (state pl) \<noteq> Some ''approved'' \<or> \<not> makedirs_ok ev \<or> \<not> write_zip_ok ev)) \<longrightarrow>
      (\<exists>e. audit_log (state (run_step ev s pl)) = audit_log (state pl) @ [e]))
   \<and> (\<exists>es. audit_log (state (run_step ev s pl)) = audit_log (state pl) @ es \<and> length es \<le> 1)"
proof (cases s)
  case VerifyIdentity
  then show ?thesis by (simp add: verify_identity_def audit_log_log Let_def)
next
  case DiscoverSources
  then show ?thesis by (simp add: discover_sources_def audit_log_log Let_def)
next
  case CollectArtifacts
  then show ?thesis by (simp add: collect_artifacts_def audit_log_log Let_def)
next
  case DetectPii
  then show ?thesis by (simp add: detect_pii_def audit_log_log Let_def)
next
  case ApplyMinimization
  then show ?thesis by (simp add: apply_minimization_def audit_log_log Let_def)
next
  case AssembleDisclosure
  then show ?thesis by (simp add: assemble_disclosure_def audit_log_log Let_def)
next
  case RequestComplianceApproval
  then show ?thesis by (simp add: request_compliance_approval_def audit_log_log Let_def)
next
  case FinalizeDelivery
  then show ?thesis by (simp add: finalize_delivery_def audit_log_log Let_def)
next
  case EvaluateLegalBasis
  then show ?thesis by (simp add: evaluate_legal_basis_def audit_log_log Let_def)
next
  case RequestLegalApproval
  then show ?thesis by (simp add: request_legal_approval_def audit_log_log Let_def)
next
  case ExecuteErasure
  then show ?thesis by (simp add: execute_erasure_def audit_log_log Let_def)
next
  case ConfirmCompletion
  then show ?thesis by (simp add: confirm_completion_def audit_log_log Let_def)
qed

theorem step_appends_one_audit_entry_witness:
  "run_step env0 FinalizeDelivery (plan_of (delivery_state ''rejected'' None))
     = plan_of (delivery_state ''rejected'' None)
   \<and> map e_step (audit_log (state (run_step env0 FinalizeDelivery (plan_of (delivery_state ''approved'' None)))))
     = [''finalize_delivery'']
   \<and> map e_step (audit_log (state (run_step env0 ExecuteErasure
        (run_step env0 EvaluateLegalBasis (plan_of (delivery_state ''approved'' None))))))
     = [''evaluate_legal_basis'', ''execute_erasure'']
   \<and> audit_log (state (run_step (env0\<lparr> write_zip_ok := False \<rparr>) FinalizeDelivery
        (run_step env0 EvaluateLegalBasis (plan_of (delivery_state ''approved'' None)))))
     = audit_log (state (run_step env0 EvaluateLegalBasis (plan_of (delivery_state ''approved'' None))))"
  using step_appends_one_audit_entry
          [of FinalizeDelivery "plan_of (delivery_state ''rejected'' None)" env0]
        step_appends_one_audit_entry
          [of FinalizeDelivery "plan_of (delivery_state ''approved'' None)" env0]
        step_appends_one_audit_entry
          [of EvaluateLegalBasis "plan_of (delivery_state ''approved'' None)" env0]
        step_appends_one_audit_entry
          [of ExecuteErasure "run_step env0 EvaluateLegalBasis (plan_of (delivery_state ''approved'' None))" env0]
        step_appends_one_audit_entry
          [of FinalizeDelivery "run_step env0 EvaluateLegalBasis (plan_of (delivery_state ''approved'' None))"
              "env0\<lparr> write_zip_ok := False \<rparr>"]
  by (simp add: finalize_delivery_def evaluate_legal_basis_def execute_erasure_def log_def Let_def
        plan_of_def delivery_state_def state0_def env0_def compliance_decision_def mk_approval_def)

text \<open>
  The claim as stated fails for a refused \<open>finalize_delivery\<close>: with the compliance
  decision \<open>rejected\<close> the invocation leaves the audit log at its length.
\<close>

theorem refused_finalize_logs_nothing_counterexample:
  "length (audit_log (state (run_step env0 FinalizeDelivery (plan_of (delivery_state ''rejected'' None)))))
     \<noteq> length (audit_log (state (plan_of (delivery_state ''rejected'' None)))) + 1"
  by (simp add: finalize_delivery_def Let_def plan_of_def delivery_state_def state0_def
        compliance_decision_def mk_approval_def)

lemma scan_txns_offsets:
  "\<forall>t \<in> set ts. t_date t \<noteq> DateNaive \<Longrightarrow>
   scan_txns nw fin svc ts acc =
     (fst acc \<or> (0 < fin \<and> (\<exists>t \<in> set ts. \<exists>dt. t_date t = DateAware dt \<and> delta_days nw dt < fin)),
      snd acc \<or> (0 < svc \<and> (\<exists>t \<in> set ts. \<exists>dt. t_date t = DateAware dt \<and>
                     contains ''subscription'' (lower (t_product t)) \<and> delta_days nw dt < svc)))"
proof (induction ts arbitrary: acc)
  case Nil
  then show ?case by simp
next
  case (Cons t ts)
  then have IH: "\<And>acc'. scan_txns nw fin svc ts acc' =
     (fst acc' \<or> (0 < fin \<and> (\<exists>t \<in> set ts. \<exists>dt. t_date t = DateAware dt \<and> delta_days nw dt < fin)),
      snd acc' \<or> (0 < svc \<and> (\<exists>t \<in> set ts. \<exists>dt. t_date t = DateAware dt \<and>
                     contains ''subscription'' (lower (t_product t)) \<and> delta_days nw dt < svc)))"
    by simp
  from Cons.prems have nn: "t_date t \<noteq> DateNaive" by simp
  show ?case
  proof (cases "t_date t")
    case DateNotStr
    then show ?thesis by (simp add: IH)
  next
    case DateInvalid
    then show ?thesis by (simp add: IH)
  next
    case DateNaive
    with nn show ?thesis by simp
  next
    case (DateAware dt)
    then show ?thesis by (auto simp: IH)
  qed
qed

lemma scan_txns_skips:
  "scan_txns nw fin svc (filter (\<lambda>t. t_date t \<noteq> DateNotStr \<and> t_date t \<noteq> DateInvalid) ts) acc
     = scan_txns nw fin svc ts acc"
  by (induction ts arbitrary: acc) (auto split: txn_date.splits)

lemma retention_flags_scan:
  "retention_flags ev pol = scan_txns (now ev) (fin_days_of pol) (svc_days_of pol) (txns_of ev) (False, False)"
  by (simp add: retention_flags_def txns_of_def fin_days_of_def svc_days_of_def split: option.splits)

text \<open>
  Claim C6, as the code has it, for transaction histories in which every date that parses
  carries a UTC offset. \<open>retain_financial_records\<close> is true iff
  \<open>financial_transaction_days > 0\<close> and some transaction's age in whole days is below it;
  \<open>retain_active_service\<close> is true iff \<open>active_service_days > 0\<close> and some transaction
  whose product contains \<open>subscription\<close>, case-insensitively, has an age below it;
  transactions whose date is not a string or does not parse are skipped;
  \<open>allow_erasure\<close> is the negation of hold or either flag; and the step returns the
  triggered reason codes.
\<close>

theorem evaluate_legal_basis_flags:
  fixes ev :: env and pl :: GDPRPlan
  defines "lg \<equiv> legal (state (snd (evaluate_legal_basis ev pl)))"
    and "fin \<equiv> fin_days_of (policy (state pl))"
    and "svc \<equiv> svc_days_of (policy (state pl))"
    and "hld \<equiv> (hold (legal (state pl)) = Some True)"
    and "rf \<equiv> (0 < fin_days_of (policy (state pl)) \<and>
                (\<exists>t \<in> set (txns_of ev). \<exists>dt. t_date t = DateAware dt \<and>
                    delta_days (now ev) dt < fin_days_of (policy (state pl))))"
    and "ra \<equiv> (0 < svc_days_of (policy (state pl)) \<and>
                (\<exists>t \<in> set (txns_of ev). \<exists>dt. t_date t = DateAware dt \<and>
                    contains ''subscription'' (lower (t_product t)) \<and>
                    delta_days (now ev) dt < svc_days_of (policy (state pl))))"
  assumes aware: "\<forall>t \<in> set (txns_of ev). t_date t \<noteq> DateNaive"
  shows "retain_financial_records lg = Some rf
       \<and> retain_active_service lg = Some ra
       \<and> allow_erasure lg = Some (\<not> (hld \<or> rf \<or> ra))
       \<and> hold lg = Some hld
       \<and> retention_flags ev (policy (state pl)) =
           retention_flags
             (ev\<lparr> transaction_history :=
                    Some (filter (\<lambda>t. t_date t \<noteq> DateNotStr \<and> t_date t \<noteq> DateInvalid) (txns_of ev)) \<rparr>)
             (policy (state pl))
       \<and> (\<exists>reasons. r_data (fst (evaluate_legal_basis ev pl)) = LegalDetail hld reasons (\<not> (hld \<or> rf \<or> ra))
            \<and> (''legal_hold'' \<in> set reasons) = hld
            \<and> (''retain_financial_records'' \<in> set reasons) = rf
            \<and> (''retain_active_service'' \<in> set reasons) = ra)"
proof -
  have fl: "retention_flags ev (policy (state pl)) = (rf, ra)"
    unfolding retention_flags_scan rf_def ra_def
    by (simp add: scan_txns_offsets [OF aware])
  have sk: "retention_flags ev (policy (state pl)) =
           retention_flags
             (ev\<lparr> transaction_history :=
                    Some (filter (\<lambda>t. t_date t \<noteq> DateNotStr \<and> t_date t \<noteq> DateInvalid) (txns_of ev)) \<rparr>)
             (policy (state pl))"
    unfolding retention_flags_scan by (simp add: txns_of_def scan_txns_skips)
  have rs: "legal_reasons hld rf ra = [] \<longleftrightarrow> \<not> (hld \<or> rf \<or> ra)"
    by (simp add: legal_reasons_def)
  have m1: "(''legal_hold'' \<in> set (legal_reasons hld rf ra)) = hld"
    and m2: "(''retain_financial_records'' \<in> set (legal_reasons hld rf ra)) = rf"
    and m3: "(''retain_active_service'' \<in> set (legal_reasons hld rf ra)) = ra"
    by (simp_all add: legal_reasons_def)
  have a: "retain_financial_records lg = Some rf" "retain_active_service lg = Some ra"
    "allow_erasure lg = Some (\<not> (hld \<or> rf \<or> ra))" "hold lg = Some hld"
    unfolding lg_def using fl rs
    by (simp_all add: evaluate_legal_basis_def log_def Let_def hld_def)
  have d: "r_data (fst (evaluate_legal_basis ev pl)) =
           LegalDetail hld (legal_reasons hld rf ra) (\<not> (hld \<or> rf \<or> ra))"
    using fl rs by (simp add: evaluate_legal_basis_def Let_def hld_def)
  from d m1 m2 m3 have e: "\<exists>reasons. r_data (fst (evaluate_legal_basis ev pl)) = LegalDetail hld reasons (\<not> (hld \<or> rf \<or> ra))
            \<and> (''legal_hold'' \<in> set reasons) = hld
            \<and> (''retain_financial_records'' \<in> set reasons) = rf
            \<and> (''retain_active_service'' \<in> set reasons) = ra"
    by blast
  show ?thesis
    by (intro conjI) (rule a sk e)+
qed

theorem evaluate_legal_basis_flags_witness:
  "DateNaive \<notin> set (map t_date (txns_of (legal_env c6_txns)))
   \<and> retain_financial_records (legal (state (snd (evaluate_legal_basis (legal_env c6_txns) (legal_plan (Some 30) None)))))
       = Some True
   \<and> retain_active_service (legal (state (snd (evaluate_legal_basis (legal_env c6_txns) (legal_plan (Some 30) None)))))
       = Some False
   \<and> allow_erasure (legal (state (snd (evaluate_legal_basis (legal_env c6_txns) (legal_plan (Some 30) None)))))
       = Some False
   \<and> r_data (fst (evaluate_legal_basis (legal_env c6_txns) (legal_plan (Some 30) None)))
       = LegalDetail False [''retain_financial_records''] False
   \<and> pre_erasure_guard (state (snd (evaluate_legal_basis (legal_env c6_txns) (legal_plan (Some 30) None))))
       = Deny ''Data retained for financial regulations''"
  using evaluate_legal_basis_flags [of "legal_env c6_txns" "legal_plan (Some 30) None"]
  by (simp add: evaluate_legal_basis_def retention_flags_def legal_reasons_def log_def Let_def
        legal_env_def legal_plan_def plan_of_def state0_def policy0_def env0_def c6_txns_def
        txns_of_def delta_days_def day_def pre_erasure_guard_def legal_decision_def
        mk_approval_def)

text \<open>
  A date that parses without an offset is not skipped: the loop ends at it, and a recent
  transaction after it no longer sets the financial flag.
\<close>

lemma naive_date_abandons_loop:
  "scan_txns (10 * day) 30 0
     [\<lparr> t_date = DateNaive, t_product = ''Order 1'' \<rparr>,
      \<lparr> t_date = DateAware (5 * day), t_product = ''Order 2'' \<rparr>] (False, False) = (False, False)
   \<and> scan_txns (10 * day) 30 0
     [\<lparr> t_date = DateAware (5 * day), t_product = ''Order 2'' \<rparr>] (False, False) = (True, False)"
  by (simp add: delta_days_def day_def)

text \<open>
  The claim as stated fails for the active-service flag: with \<open>active_service_days = 0\<close>
  and a subscription dated one day ahead of the clock, the age \<open>-1\<close> is below the
  threshold, and the flag stays false because the code also asks for a positive threshold.
\<close>

theorem future_subscription_counterexample:
  "retain_active_service
     (legal (state (snd (evaluate_legal_basis (legal_env c6_future_txns) (legal_plan None (Some 0))))))
     = Some False
   \<and> svc_days_of (policy (state (legal_plan None (Some 0)))) = 0
   \<and> map t_product c6_future_txns = [''Premium Subscription'']
   \<and> contains ''subscription'' (lower ''Premium Subscription'')
   \<and> map t_date c6_future_txns = [DateAware (11 * day)]
   \<and> delta_days (now (legal_env c6_future_txns)) (11 * day) = - 1"
  by (simp add: evaluate_legal_basis_def retention_flags_def legal_reasons_def log_def Let_def
        legal_env_def legal_plan_def plan_of_def state0_def policy0_def env0_def
        c6_future_txns_def svc_days_of_def delta_days_def day_def lower_def lower_char_def)














lemma apply_one_out_of_range: "\<not> in_range text p \<Longrightarrow> apply_one text p = text"
  by (auto simp: apply_one_def in_range_def Let_def)




lemma finalize_delivery_refused:
  "compliance_decision (state pl) \<noteq> Some ''approved'' \<Longrightarrow>
   finalize_delivery ev pl =
     (Inr \<lparr> r_step = ''finalize_delivery'', r_success = False, r_data = NoData,
            r_error = Some ''Not approved'' \<rparr>, None, pl)"
  by (simp add: finalize_delivery_def)


lemma set_sorted_desc: "set (sorted_desc ps) = set ps"
  by (simp add: sorted_desc_def)


text \<open>
  What the redaction loop does for an artifact: it takes the selected proposals that target
  it in descending order of \<open>start\<close>, and on selected spans that lie inside the content
  and do not overlap it replaces each span by its masked text.
\<close>

lemma redaction_order:
  "sorted (map (\<lambda>p. - p_start p) (sorted_desc (selected_for st aid)))
   \<and> mset (sorted_desc (selected_for st aid)) = mset (selected_for st aid)"
  by (simp add: sorted_desc_def)


lemma detect_john:
  "map (\<lambda>f. (r_pii_type f, r_value f, r_start f, r_end f)) (detect john_text)
     = [(''email'', ''john.smith.5551234567@x.com'', 0, 27), (''phone'', ''5551234567'', 11, 21)]"
  unfolding john_text_def by code_simp

lemma detect_overlap:
  "map (\<lambda>f. (r_pii_type f, r_start f, r_end f)) (detect ''123456789@ab.cd'')
     = [(''email'', 0, 15), (''phone'', 0, 9)]"
  by code_simp

text \<open>
  Claim C3 at two run records that the workflow produces. The refusal half of the claim
  holds (\<open>finalize_delivery_refused\<close>), and so does the replacement on spans that do not
  overlap (\<open>delivered_disjoint_spans\<close>). But the detector finds a phone number inside the
  local part of an email, and \<open>finalize_delivery\<close> then succeeds without replacing the
  selected email's span by its masked text. For \<open>john.smith.5551234567@x.com\<close> the email
  proposal \<open>p0\<close> is selected and listed as applied, its span is the whole content and its
  masked text is \<open>jo***@x.com\<close>, yet the delivered content still shows the address. For
  \<open>123456789@ab.cd\<close> the email is masked first and the phone's mask is then written at the
  phone's offsets in the masked text.
\<close>

theorem selected_email_not_replaced:
  "succeeds env0 (plan_of (approved_state john_text john_proposals))
   \<and> applied_ids env0 (plan_of (approved_state john_text john_proposals)) = [''p0'', ''p1'']
   \<and> in_range john_text (john_proposals ! 0)
   \<and> slice_to 0 john_text @ mask_value ''email'' ''john.smith.5551234567@x.com'' @
       slice_from 27 john_text = ''jo***@x.com''
   \<and> delivered env0 (plan_of (approved_state john_text john_proposals)) ''a1''
       = Some ''john.smith.***4567@x.com''
   \<and> succeeds env0 (plan_of (approved_state ''123456789@ab.cd'' overlap_proposals))
   \<and> in_range ''123456789@ab.cd'' (overlap_proposals ! 0)
   \<and> slice_to 0 ''123456789@ab.cd'' @ mask_value ''email'' ''123456789@ab.cd'' @
       slice_from 15 ''123456789@ab.cd'' = ''12***@ab.cd''
   \<and> delivered env0 (plan_of (approved_state ''123456789@ab.cd'' overlap_proposals)) ''a1''
       = Some ''***6789cd''"
  by (simp add: finalize_delivery_def delivered_def succeeds_def applied_ids_def
        redacted_artifacts_def redact_all_def redact_text_def by_art_def by_art_add_def
        art_id_to_text_def apply_one_def sorted_desc_def finalize_selected_ids_def in_range_def
        compliance_decision_def log_def Let_def plan_of_def approved_state_def john_text_def
        john_proposals_def overlap_proposals_def state0_def env0_def mk_proposal_def
        mk_approval_def mask_value_def slice_to_def slice_from_def)

text \<open>
  Claim C7 at two run records. The proposals of an artifact are applied in descending
  order of \<open>start\<close> (\<open>redaction_order\<close>). But the range test is made against the text as
  changed so far, not against the artifact's content. For \<open>john.smith.5551234567@x.com\<close>
  the phone \<open>p1\<close> is replaced first and shortens the text to 24 characters; the email
  \<open>p0\<close>, whose offsets \<open>[0,27)\<close> are in range for the content, then fails the test and
  is dropped. For \<open>ab\<close> the span \<open>[1,2)\<close> is replaced first and lengthens the text; the
  proposal with offsets \<open>[0,5)\<close>, out of range for the content, then passes the test and is
  applied.
\<close>

theorem range_test_on_changed_text:
  "map p_id (sorted_desc (selected_for (approved_state john_text john_proposals) ''a1'')) = [''p1'', ''p0'']
   \<and> in_range john_text (john_proposals ! 0)
   \<and> apply_one john_text (john_proposals ! 1) = ''john.smith.***4567@x.com''
   \<and> \<not> in_range ''john.smith.***4567@x.com'' (john_proposals ! 0)
   \<and> delivered env0 (plan_of (approved_state john_text john_proposals)) ''a1''
       = Some ''john.smith.***4567@x.com''
   \<and> map p_id (sorted_desc (selected_for (approved_state ''ab'' stretched_proposals) ''a1'')) = [''p1'', ''p0'']
   \<and> \<not> in_range ''ab'' (stretched_proposals ! 0)
   \<and> apply_one ''ab'' (stretched_proposals ! 1) = ''a[REDACTED]''
   \<and> in_range ''a[REDACTED]'' (stretched_proposals ! 0)
   \<and> delivered env0 (plan_of (approved_state ''ab'' stretched_proposals)) ''a1''
       = Some ''[REDACTED]ACTED]''"
  by (simp add: finalize_delivery_def delivered_def succeeds_def redacted_artifacts_def
        redact_all_def redact_text_def by_art_def by_art_add_def art_id_to_text_def apply_one_def
        sorted_desc_def finalize_selected_ids_def selected_for_def in_range_def
        compliance_decision_def log_def Let_def plan_of_def approved_state_def john_text_def
        john_proposals_def stretched_proposals_def state0_def env0_def mk_proposal_def
        mk_approval_def mask_value_def slice_to_def slice_from_def)




lemma digit_not_space: "is_digit c \<Longrightarrow> \<not> is_space c"
  by (auto simp: is_digit_def is_space_def Let_def)

lemma plus_not_space: "\<not> is_space CHR ''+''"
  by (simp add: is_space_def)

lemma strip_id:
  assumes "v \<noteq> []" and "\<not> is_space (hd v)" and "\<not> is_space (last v)"
  shows "strip v = v"
proof -
  from assms(1,2) have a: "dropWhile is_space v = v"
    by (cases v) auto
  from assms(1,3) have b: "dropWhile is_space (rev v) = rev v"
    by (cases "rev v") (auto simp: hd_rev [symmetric])
  show ?thesis by (simp add: strip_def a b)
qed

lemma filter_head: "filter P xs = k # ks \<Longrightarrow> k \<in> set xs \<and> P k"
proof -
  assume "filter P xs = k # ks"
  then have "k \<in> set (filter P xs)" by simp
  then show ?thesis by simp
qed

lemma phone_tail_Some:
  assumes "phone_tail run = Some m"
  shows "8 \<le> m \<and> m \<le> length run \<and> is_digit (run ! (m - 1))"
proof -
  from assms obtain k ks where f: "filter (\<lambda>k. is_digit (run ! k)) (rev [7..<length run]) = k # ks"
    and m: "m = Suc k"
    by (auto simp: phone_tail_def split: list.splits)
  from filter_head [OF f] have "7 \<le> k" "k < length run" "is_digit (run ! k)" by auto
  with m show ?thesis by simp
qed

lemma phone_body_Some:
  assumes "phone_body ys = Some m"
  shows "ys \<noteq> [] \<and> is_digit (hd ys) \<and> 2 \<le> m \<and> m \<le> length ys \<and> is_digit (ys ! (m - 1))"
proof -
  from assms obtain d zs m' where ys: "ys = d # zs" and d: "is_digit d"
    and t: "phone_tail (takeWhile is_phone_mid zs) = Some m'" and m: "m = 1 + m'"
    by (auto simp: phone_body_def split: list.splits if_splits option.splits)
  from phone_tail_Some [OF t]
  have m8: "8 \<le> m'" and le: "m' \<le> length (takeWhile is_phone_mid zs)"
    and dg: "is_digit (takeWhile is_phone_mid zs ! (m' - 1))" by auto
  from le m8 have lt: "m' - 1 < length (takeWhile is_phone_mid zs)" by simp
  have "takeWhile is_phone_mid zs ! (m' - 1) = zs ! (m' - 1)"
    by (rule takeWhile_nth [OF lt])
  with dg have dz: "is_digit (zs ! (m' - 1))" by simp
  from le have lz: "m' \<le> length zs"
    using length_takeWhile_le [of is_phone_mid zs] by simp
  from m8 have "ys ! (m - 1) = zs ! (m' - 1)"
    by (cases m') (simp_all add: ys m)
  with ys d m m8 lz dz show ?thesis by simp
qed

lemma phone_match_Some:
  assumes "phone_match xs = Some n"
  shows "0 < n \<and> n \<le> length xs \<and> \<not> is_space (hd xs) \<and> \<not> is_space (xs ! (n - 1))"
proof (cases xs)
  case Nil
  with assms show ?thesis by (simp add: phone_match_def)
next
  case (Cons c cs)
  show ?thesis
  proof (cases "c = CHR ''+''")
    case True
    with assms Cons obtain m where b: "phone_body cs = Some m" and n: "n = 1 + m"
      by (auto simp: phone_match_def split: option.splits)
    from phone_body_Some [OF b] have "2 \<le> m" "m \<le> length cs" "is_digit (cs ! (m - 1))" by auto
    moreover from \<open>2 \<le> m\<close> have "xs ! (n - 1) = cs ! (m - 1)"
      by (cases m) (simp_all add: Cons n)
    ultimately show ?thesis
      using True Cons n by (simp add: digit_not_space plus_not_space)
  next
    case False
    with assms Cons have b: "phone_body xs = Some n"
      by (simp add: phone_match_def)
    from phone_body_Some [OF b] show ?thesis
      by (auto simp: digit_not_space)
  qed
qed

lemma finditer_match:
  "(s, e) \<in> set (finditer m pos skp xs) \<Longrightarrow>
   \<exists>n. pos \<le> s \<and> e = s + n \<and> m (drop (s - pos) xs) = Some n"
proof (induction xs arbitrary: pos skp)
  case Nil
  then show ?case by simp
next
  case (Cons c cs)
  have later: "\<exists>n. pos \<le> s \<and> e = s + n \<and> m (drop (s - pos) (c # cs)) = Some n"
    if "(s, e) \<in> set (finditer m (Suc pos) k cs)" for k
  proof -
    from Cons.IH [OF that] obtain n where "Suc pos \<le> s" "e = s + n" "m (drop (s - Suc pos) cs) = Some n"
      by blast
    moreover from \<open>Suc pos \<le> s\<close> have "drop (s - pos) (c # cs) = drop (s - Suc pos) cs"
      by (simp add: Suc_diff_le drop_Cons')
    ultimately show ?thesis by auto
  qed
  show ?case
  proof (cases "0 < skp")
    case True
    with Cons.prems have "(s, e) \<in> set (finditer m (Suc pos) (skp - 1) cs)" by simp
    then show ?thesis by (rule later)
  next
    case False
    show ?thesis
    proof (cases "m (c # cs)")
      case None
      with False Cons.prems have "(s, e) \<in> set (finditer m (Suc pos) 0 cs)" by simp
      then show ?thesis by (rule later)
    next
      case (Some n)
      with False Cons.prems
      have "(s, e) = (pos, pos + n) \<or> (s, e) \<in> set (finditer m (Suc pos) (n - 1) cs)" by simp
      then show ?thesis
      proof
        assume "(s, e) = (pos, pos + n)"
        with Some show ?thesis by simp
      next
        assume "(s, e) \<in> set (finditer m (Suc pos) (n - 1) cs)"
        then show ?thesis by (rule later)
      qed
    qed
  qed
qed

lemma phone_value_stripped:
  assumes "se \<in> set (finditer phone_match 0 0 body)"
  shows "strip (r_value (match_finding ''phone'' conf body se)) = r_value (match_finding ''phone'' conf body se)"
proof -
  obtain s e where se: "se = (s, e)" by (cases se)
  from finditer_match [of s e phone_match 0 0 body] assms se
  obtain n where e: "e = s + n" and mt: "phone_match (drop s body) = Some n" by auto
  let ?v = "take n (drop s body)"
  from phone_match_Some [OF mt]
  have n0: "0 < n" and le: "n \<le> length (drop s body)"
    and h: "\<not> is_space (hd (drop s body))" and l: "\<not> is_space (drop s body ! (n - 1))" by auto
  from n0 le have ne: "?v \<noteq> []" by auto
  from n0 have hdv: "hd ?v = hd (drop s body)" by (simp add: hd_take)
  from n0 le have "last ?v = ?v ! (n - 1)" using ne by (simp add: last_conv_nth min_def)
  also from n0 have "\<dots> = drop s body ! (n - 1)" by simp
  finally have lst: "last ?v = drop s body ! (n - 1)" .
  from h have h': "\<not> is_space (hd ?v)" unfolding hdv .
  from l have l': "\<not> is_space (last ?v)" unfolding lst .
  have "strip ?v = ?v"
    by (rule strip_id [OF ne h' l'])
  then show ?thesis by (simp add: match_finding_def se e)
qed

lemma detect_phone_stripped:
  assumes "rf \<in> set (detect body)" and "r_pii_type rf = ''phone''"
  shows "strip (r_value rf) = r_value rf"
proof -
  from assms have "rf \<in> match_finding ''phone'' 0.9 body ` set (finditer phone_match 0 0 body)"
    by (auto simp: detect_def match_finding_def split: if_splits)
  then show ?thesis by (auto simp: phone_value_stripped)
qed

lemma detect_findings_classified:
  "f \<in> set (detect_findings ids arts) \<Longrightarrow>
   \<exists>art rf. art \<in> set arts \<and> rf \<in> set (detect (a_content art)) \<and> f = classify ids (a_id art) rf"
  by (auto simp: detect_findings_def)

lemma known_emails:
  "emails (known_subject_identifiers ev st) =
     {e. (subject_email st \<noteq> [] \<and> e = lower (strip (subject_email st))) \<or>
         (e \<noteq> [] \<and>
            ((\<exists>crm s. crm_file ev = Some crm \<and> crm_email crm = Some s \<and> e = lower (strip s)) \<or>
             (\<exists>s. id_email (identity st) = Some s \<and> e = lower (strip s))))}"
proof -
  have l0: "lower [] = []" and s0: "strip [] = []"
    by (simp_all add: lower_def strip_def)
  show ?thesis
    by (cases "crm_file ev"; cases "id_email (identity st)")
       (auto simp: known_subject_identifiers_def opt_str_def Let_def l0 s0 split: option.splits)
qed

lemma known_phones:
  "phones (known_subject_identifiers ev st) =
     {p. p \<noteq> [] \<and>
         ((\<exists>crm s. crm_file ev = Some crm \<and> crm_phone crm = Some s \<and> p = strip s) \<or>
          (\<exists>s. id_phone (identity st) = Some s \<and> p = strip s))}"
proof -
  have s0: "strip [] = []"
    by (simp add: strip_def)
  show ?thesis
    by (cases "crm_file ev"; cases "id_phone (identity st)")
       (auto simp: known_subject_identifiers_def opt_str_def Let_def s0 split: option.splits)
qed

text \<open>
  Claim C5. The subject's emails are the subject email of the request (when it is not
  empty) and the emails of the CRM profile and of the identity hints (when they are not
  empty), each stripped and lower-cased; the subject's phones are the phones of the CRM
  profile and of the identity hints, stripped, when they are not empty. Every finding that
  \<open>detect_pii\<close> emits is marked third-party iff it is an email whose value, stripped and
  lower-cased, is not among the subject's emails, or a phone whose value, as found, is not
  among the subject's phones; a finding of any other type is never marked.
\<close>

theorem detect_pii_third_party:
  fixes ev :: env and pl :: GDPRPlan
  defines "st \<equiv> state pl"
    and "subject_emails \<equiv>
      {e. (subject_email (state pl) \<noteq> [] \<and> e = lower (strip (subject_email (state pl)))) \<or>
          (e \<noteq> [] \<and>
             ((\<exists>crm s. crm_file ev = Some crm \<and> crm_email crm = Some s \<and> e = lower (strip s)) \<or>
              (\<exists>s. id_email (identity (state pl)) = Some s \<and> e = lower (strip s))))}"
    and "subject_phones \<equiv>
      {p. p \<noteq> [] \<and>
          ((\<exists>crm s. crm_file ev = Some crm \<and> crm_phone crm = Some s \<and> p = strip s) \<or>
           (\<exists>s. id_phone (identity (state pl)) = Some s \<and> p = strip s))}"
  assumes emitted: "f \<in> set (pii_findings (state (snd (detect_pii ev pl))))"
  shows "(f_third_party f \<longleftrightarrow>
            (f_pii_type f = ''email'' \<and> lower (strip (f_value f)) \<notin> subject_emails) \<or>
            (f_pii_type f = ''phone'' \<and> f_value f \<notin> subject_phones))
       \<and> (f_pii_type f \<noteq> ''email'' \<and> f_pii_type f \<noteq> ''phone'' \<longrightarrow> \<not> f_third_party f)
       \<and> emails (known_subject_identifiers ev st) = subject_emails
       \<and> phones (known_subject_identifiers ev st) = subject_phones"
proof -
  let ?ids = "known_subject_identifiers ev (state pl)"
  have em: "emails ?ids = subject_emails"
    unfolding subject_emails_def by (rule known_emails)
  have ph: "phones ?ids = subject_phones"
    unfolding subject_phones_def by (rule known_phones)
  from emitted have "f \<in> set (detect_findings ?ids (artifacts (state pl)))"
    by (simp add: detect_pii_def log_def Let_def)
  from detect_findings_classified [OF this]
  obtain art :: artifact and rf
    where rf: "rf \<in> set (detect (a_content art))" and f: "f = classify ?ids (a_id art) rf"
    by blast
  have raw: "r_pii_type rf = ''phone'' \<Longrightarrow> strip (r_value rf) = r_value rf"
    by (rule detect_phone_stripped [OF rf])
  have a: "f_third_party f \<longleftrightarrow>
            (f_pii_type f = ''email'' \<and> lower (strip (f_value f)) \<notin> subject_emails) \<or>
            (f_pii_type f = ''phone'' \<and> f_value f \<notin> subject_phones)"
    using raw unfolding em [symmetric] ph [symmetric] by (auto simp: f classify_def Let_def)
  have b: "f_pii_type f \<noteq> ''email'' \<and> f_pii_type f \<noteq> ''phone'' \<longrightarrow> \<not> f_third_party f"
    by (simp add: f classify_def Let_def)
  show ?thesis
    unfolding st_def by (intro conjI) (rule a b em ph)+
qed

lemma c5_findings:
  "pii_findings (state (snd (detect_pii c5_env c5_plan))) = [c5_email, c5_other, c5_phone]"
  by code_simp

theorem detect_pii_third_party_witness:
  "c5_email \<in> set (pii_findings (state (snd (detect_pii c5_env c5_plan))))
   \<and> c5_other \<in> set (pii_findings (state (snd (detect_pii c5_env c5_plan))))
   \<and> c5_phone \<in> set (pii_findings (state (snd (detect_pii c5_env c5_plan))))
   \<and> emails (known_subject_identifiers c5_env (state c5_plan)) = {''a@b.io'', ''q@r.io''}
   \<and> phones (known_subject_identifiers c5_env (state c5_plan)) = {''1234567890''}
   \<and> lower (strip (f_value c5_email)) = ''a@b.io''
   \<and> \<not> f_third_party c5_email
   \<and> f_third_party c5_other
   \<and> \<not> f_third_party c5_phone"
proof -
  have m1: "c5_email \<in> set (pii_findings (state (snd (detect_pii c5_env c5_plan))))"
    and m2: "c5_other \<in> set (pii_findings (state (snd (detect_pii c5_env c5_plan))))"
    and m3: "c5_phone \<in> set (pii_findings (state (snd (detect_pii c5_env c5_plan))))"
    by (simp_all add: c5_findings)
  have ids: "emails (known_subject_identifiers c5_env (state c5_plan)) = {''a@b.io'', ''q@r.io''}"
    "phones (known_subject_identifiers c5_env (state c5_plan)) = {''1234567890''}"
    by (auto simp: c5_plan_def c5_env_def plan_of_def state0_def env0_def
          known_subject_identifiers_def opt_str_def Let_def lower_def lower_char_def strip_def
          is_space_def)
  have v: "lower (strip (f_value c5_email)) = ''a@b.io''"
    by (simp add: c5_email_def lower_def lower_char_def strip_def is_space_def)
  have w: "lower (strip (f_value c5_other)) = ''c@d.io''"
    by (simp add: c5_other_def lower_def lower_char_def strip_def is_space_def)
  from detect_pii_third_party [OF m1] have t1: "\<not> f_third_party c5_email"
    unfolding ids v by (simp add: c5_email_def)
  from detect_pii_third_party [OF m2] have t2: "f_third_party c5_other"
    unfolding ids w by (simp add: c5_other_def)
  from detect_pii_third_party [OF m3] have t3: "\<not> f_third_party c5_phone"
    unfolding ids by (simp add: c5_phone_def)
  show ?thesis
    by (intro conjI) (rule m1 m2 m3 ids v t1 t2 t3)+
qed

end
